theory Spec2Isabelle
  imports Main
begin

section \<open>Values, references and errors\<close>

text \<open>
  The validation-rules module of the repository (src/unnamed/part\_001) works on JavaScript
  objects that are compared by identity and mutated in place. An object is modelled by a
  reference (its index in a heap list of the world state); allocation appends to the heap.
  A thrown exception is a value of type \<open>error\<close>; every operation that can throw returns
  its outcome together with the state it leaves behind, since assignments made before a
  throw stay visible.
\<close>

type_synonym ref = nat

datatype error = Error string | TypeError string

section \<open>Annotation metadata\<close>

text \<open>
  Modelled from the spec: \<open>Protocol.annotation\<close> and \<open>Metadata\<close> of the kernel package are
  imported by the module and are not under src. Section 6 of the spec gives the store as
  \<open>define(key, value, target)\<close>, \<open>getOwn(key, target)\<close> (undefined when absent) and
  \<open>delete(key, target)\<close>, and section 4.4 has \<open>get\<close> look up the namespaced key that
  \<open>set\<close> stored under, so \<open>keyFor name context\<close> and \<open>keyFor (name:context)\<close> agree.
  The store is typed: the index of tracked keys kept under \<open>Protocol.annotation.name\<close> is
  the field \<open>annotationKeys\<close>, the rule lists kept under \<open>keyFor\<close> keys are
  the field \<open>annotations\<close> (a rule list is a reference to an array).
\<close>

definition annotation_name :: string where
  "annotation_name = ''au:annotation''"

definition keyFor :: "string \<Rightarrow> string option \<Rightarrow> string" where
  "keyFor nm context =
     (case context of
        None \<Rightarrow> annotation_name @ '':'' @ nm
      | Some c \<Rightarrow> annotation_name @ '':'' @ nm @ '':'' @ c)"

record 'o metadata =
  annotationKeys :: "'o \<Rightarrow> string list option"
  annotations :: "'o \<Rightarrow> string \<Rightarrow> ref option"

definition Metadata_define :: "string \<Rightarrow> ref \<Rightarrow> 'o \<Rightarrow> 'o metadata \<Rightarrow> 'o metadata" where
  "Metadata_define key v target md =
     md\<lparr>annotations := (annotations md)(target := (annotations md target)(key \<mapsto> v))\<rparr>"

definition Metadata_getOwn :: "string \<Rightarrow> 'o \<Rightarrow> 'o metadata \<Rightarrow> ref option" where
  "Metadata_getOwn key target md = annotations md target key"

definition Metadata_delete :: "string \<Rightarrow> 'o \<Rightarrow> 'o metadata \<Rightarrow> 'o metadata" where
  "Metadata_delete key target md =
     md\<lparr>annotations := (annotations md)(target := (annotations md target)(key := None))\<rparr>"

definition Metadata_defineKeys :: "string list \<Rightarrow> 'o \<Rightarrow> 'o metadata \<Rightarrow> 'o metadata" where
  "Metadata_defineKeys keys target md =
     md\<lparr>annotationKeys := (annotationKeys md)(target \<mapsto> keys)\<rparr>"

definition Metadata_getOwnKeys :: "'o \<Rightarrow> 'o metadata \<Rightarrow> string list option" where
  "Metadata_getOwnKeys target md = annotationKeys md target"

section \<open>String helpers of the host language\<close>

definition startsWith :: "string \<Rightarrow> string \<Rightarrow> bool" where
  "startsWith s p = (take (length p) s = p)"

definition endsWith :: "string \<Rightarrow> string \<Rightarrow> bool" where
  "endsWith s t = (length t \<le> length s \<and> drop (length s - length t) s = t)"

text \<open>\<open>indexOf\<close> gives \<open>-1\<close> when the element is absent; \<open>splice1 i\<close> is \<open>splice(i, 1)\<close>.\<close>

fun indexOf :: "'a list \<Rightarrow> 'a \<Rightarrow> int" where
  "indexOf [] x = -1"
| "indexOf (y # ys) x =
     (if y = x then 0 else (let i = indexOf ys x in if i = -1 then -1 else i + 1))"

definition splice1 :: "int \<Rightarrow> 'a list \<Rightarrow> 'a list" where
  "splice1 i xs = take (nat i) xs @ drop (nat i + 1) xs"

section \<open>validationRulesRegistrar\<close>

definition registrar_name :: string where
  "registrar_name = ''validation-rules''"

definition defaultRuleSetName :: string where
  "defaultRuleSetName = ''__default''"

text \<open>\<open>tag ?? defaultRuleSetName\<close>\<close>

definition tagOrDefault :: "string option \<Rightarrow> string" where
  "tagOrDefault tag = (case tag of None \<Rightarrow> defaultRuleSetName | Some t \<Rightarrow> t)"

definition registrar_set :: "'o \<Rightarrow> ref \<Rightarrow> string option \<Rightarrow> 'o metadata \<Rightarrow> 'o metadata" where
  "registrar_set target rules tag md =
     (let key = registrar_name @ '':'' @ tagOrDefault tag;
          md1 = Metadata_define (keyFor key None) rules target md
      in case Metadata_getOwnKeys target md1 of
           None \<Rightarrow> Metadata_defineKeys [key] target md1
         | Some keys \<Rightarrow> Metadata_defineKeys (keys @ [key]) target md1)"

definition registrar_get :: "'o \<Rightarrow> string option \<Rightarrow> 'o metadata \<Rightarrow> ref option" where
  "registrar_get target tag md =
     Metadata_getOwn (keyFor registrar_name (Some (tagOrDefault tag))) target md"

text \<open>
  The loop of \<open>unset\<close> runs over a copy of the key list (\<open>keys.slice(0)\<close>) and removes from
  the live list, which stays in the store: the model reads the live list from the store in
  every round and writes it back after the splice.
\<close>

definition unset_matches :: "string option \<Rightarrow> string \<Rightarrow> bool" where
  "unset_matches tag key =
     (startsWith key registrar_name \<and> (case tag of None \<Rightarrow> True | Some t \<Rightarrow> endsWith key t))"

definition unset_step :: "'o \<Rightarrow> string option \<Rightarrow> string \<Rightarrow> 'o metadata \<Rightarrow> 'o metadata" where
  "unset_step target tag key md =
     (if unset_matches tag key then
        (let md1 = Metadata_delete (keyFor key None) target md;
             keys = (case Metadata_getOwnKeys target md1 of None \<Rightarrow> [] | Some ks \<Rightarrow> ks);
             index = indexOf keys key
         in if index > -1 then Metadata_defineKeys (splice1 index keys) target md1 else md1)
      else md)"

fun unset_loop :: "'o \<Rightarrow> string option \<Rightarrow> string list \<Rightarrow> 'o metadata \<Rightarrow> 'o metadata" where
  "unset_loop target tag [] md = md"
| "unset_loop target tag (key # rest) md = unset_loop target tag rest (unset_step target tag key md)"

definition registrar_unset ::
  "'o \<Rightarrow> string option \<Rightarrow> 'o metadata \<Rightarrow> (error + unit) \<times> 'o metadata" where
  "registrar_unset target tag md =
     (case Metadata_getOwnKeys target md of
        None \<Rightarrow> (Inl (TypeError ''Cannot read properties of undefined (reading slice)''), md)
      | Some keys \<Rightarrow> (Inr (), unset_loop target tag keys md))"

definition isValidationRulesSet :: "'o \<Rightarrow> 'o metadata \<Rightarrow> bool" where
  "isValidationRulesSet target md =
     list_ex (\<lambda>key. startsWith key registrar_name)
       (case Metadata_getOwnKeys target md of None \<Rightarrow> [] | Some keys \<Rightarrow> keys)"

section \<open>Expressions and the parser\<close>

text \<open>
  Modelled from the spec: the expression parser and the expression classes of the runtime
  package are imported by the module and are not under src. Section 6 of the spec gives
  \<open>parse(text, bindingKind)\<close>, which yields for a message template an interpolation with
  its constituent expressions, each exposing whether it is a bare variable reference with
  a name and an ancestor depth. The module reads three things of an expression: whether
  it is an \<open>AccessThisExpression\<close>, its \<open>name\<close> property and its \<open>ancestor\<close> property.
  A variable reference \<open>AccessScopeExpression\<close> has both, a member access
  \<open>AccessMemberExpression\<close> has the member's name and no ancestor, and
  \<open>OtherExpression\<close> stands for every other node kind, with those two properties when
  the node has them. The parser itself is a parameter of every operation that calls it;
  it may throw.
\<close>

datatype BindingType = BindingType_None | BindingType_Interpolation

datatype expr =
    AccessThisExpression nat
  | AccessScopeExpression string nat
  | AccessMemberExpression expr string
  | OtherExpression "string option" "nat option"
  | PrimitiveLiteralExpression string
  | Interpolation "string list" "expr list"

type_synonym parser = "string \<Rightarrow> BindingType \<Rightarrow> error + expr"

fun expr_name :: "expr \<Rightarrow> string option" where
  "expr_name (AccessScopeExpression n a) = Some n"
| "expr_name (AccessMemberExpression e n) = Some n"
| "expr_name (OtherExpression n a) = n"
| "expr_name e = None"

fun expr_ancestor :: "expr \<Rightarrow> nat option" where
  "expr_ancestor (AccessThisExpression a) = Some a"
| "expr_ancestor (AccessScopeExpression n a) = Some a"
| "expr_ancestor (OtherExpression n a) = a"
| "expr_ancestor e = None"

fun isAccessThis :: "expr \<Rightarrow> bool" where
  "isAccessThis (AccessThisExpression a) = True"
| "isAccessThis e = False"

section \<open>ValidationMessageProvider\<close>

definition contextualProperties :: "string list" where
  "contextualProperties =
     [''displayName'', ''propertyName'', ''value'', ''object'', ''config'', ''getDisplayName'']"

definition dquote :: string where
  "dquote = [CHR 0x22]"

definition warning_text :: "string \<Rightarrow> string \<Rightarrow> string" where
  "warning_text nm message =
     ''Did you mean to use '' @ dquote @ ''$'' @ nm @ dquote @ '' instead of '' @ dquote @ nm @ dquote
       @ '' in this validation message template: '' @ dquote @ message @ dquote @ ''?''"

text \<open>
  The loop of \<open>parseMessage\<close> over \<open>parsed.expressions\<close>: the warning of an expression is
  logged before the same expression is tested for a parent reference. The result is the
  thrown error, if any, and the log.
\<close>

fun checkExpressions :: "string \<Rightarrow> expr list \<Rightarrow> string list \<Rightarrow> error option \<times> string list" where
  "checkExpressions message [] log = (None, log)"
| "checkExpressions message (e # es) log =
     (let log1 = (case expr_name e of
                    None \<Rightarrow> log
                  | Some nm \<Rightarrow> if List.member contextualProperties nm
                               then log @ [warning_text nm message] else log)
      in if isAccessThis e \<or> (case expr_ancestor e of None \<Rightarrow> False | Some a \<Rightarrow> a > 0)
         then (Some (Error ''$parent is not permitted in validation message expressions.''), log1)
         else checkExpressions message es log1)"

definition parseMessage :: "parser \<Rightarrow> string \<Rightarrow> string list \<Rightarrow> (error + expr) \<times> string list" where
  "parseMessage parse message log =
     (case parse message BindingType_Interpolation of
        Inl e \<Rightarrow> (Inl e, log)
      | Inr parsed \<Rightarrow>
          (case parsed of
             Interpolation parts expressions \<Rightarrow>
               (case checkExpressions message expressions log of
                  (Some err, log1) \<Rightarrow> (Inl err, log1)
                | (None, log1) \<Rightarrow> (Inr parsed, log1))
           | _ \<Rightarrow> (Inr (PrimitiveLiteralExpression message), log)))"

text \<open>
  Property names are \<open>string | number | undefined\<close>, display names
  \<open>string | (() => string) | undefined\<close>; an accessor is given by the string it returns.
  A string is the list of its code units, those below 256. Numbers are modelled by the
  integers with their decimal digits as string conversion, which is the conversion of
  the language for the integers of magnitude below \<open>2^53\<close>.
\<close>

datatype propname = NameString string | NameNumber int | NameUndefined

datatype displayname = DisplayString string | DisplayAccessor string | DisplayUndefined

definition digit_char :: "nat \<Rightarrow> char" where
  "digit_char d = ''0123456789'' ! d"

fun nat_toString :: "nat \<Rightarrow> string" where
  "nat_toString n = (if n < 10 then [digit_char n] else nat_toString (n div 10) @ [digit_char (n mod 10)])"

definition int_toString :: "int \<Rightarrow> string" where
  "int_toString i = (if i < 0 then ''-'' @ nat_toString (nat (- i)) else nat_toString (nat i))"

definition upper_chars :: string where
  "upper_chars = ''ABCDEFGHIJKLMNOPQRSTUVWXYZ''"

definition lower_chars :: string where
  "lower_chars = ''abcdefghijklmnopqrstuvwxyz''"

definition isUpperAZ :: "char \<Rightarrow> bool" where
  "isUpperAZ c = List.member upper_chars c"

text \<open>
  \<open>toUpperCase\<close> of the language follows the Unicode case tables: it turns the letters a
  to z into A to Z, leaves every other ASCII character as it is, and turns a character
  outside ASCII into one or more characters, which the parameter \<open>unicodeUpper\<close> gives.
  \<open>getDisplayName\<close> applies it to \<open>words.charAt(0)\<close>, a string of at most one
  character, which is the only use here; the top bit of a character tells whether it
  is outside ASCII.
\<close>

definition toUpperCase_ascii :: "char \<Rightarrow> char" where
  "toUpperCase_ascii c = (case map_of (zip lower_chars upper_chars) c of None \<Rightarrow> c | Some u \<Rightarrow> u)"

definition toUpperCase :: "(char \<Rightarrow> string) \<Rightarrow> string \<Rightarrow> string" where
  "toUpperCase unicodeUpper s =
     concat (map (\<lambda>c. if digit7 c then unicodeUpper c else [toUpperCase_ascii c]) s)"

text \<open>
  \<open>s.split(/(?=[A-Z])/)\<close>: the separator is the empty match in front of a letter A to Z.
  The split algorithm of the language skips an empty match at the start of the current
  piece, so no piece is empty and a leading capital does not split; the empty string gives
  one empty piece. \<open>splitBeforeUpper cur rest\<close> carries the current, non-empty piece.
\<close>

fun splitBeforeUpper :: "string \<Rightarrow> string \<Rightarrow> string list" where
  "splitBeforeUpper cur [] = [cur]"
| "splitBeforeUpper cur (c # cs) =
     (if isUpperAZ c then cur # splitBeforeUpper [c] cs else splitBeforeUpper (cur @ [c]) cs)"

definition split_upper :: "string \<Rightarrow> string list" where
  "split_upper s = (case s of [] \<Rightarrow> [[]] | c # cs \<Rightarrow> splitBeforeUpper [c] cs)"

fun join :: "string \<Rightarrow> string list \<Rightarrow> string" where
  "join sep [] = []"
| "join sep [p] = p"
| "join sep (p # q # ps) = p @ sep @ join sep (q # ps)"

definition getDisplayName ::
  "(char \<Rightarrow> string) \<Rightarrow> propname \<Rightarrow> displayname \<Rightarrow> error + string" where
  "getDisplayName unicodeUpper propertyName displayName =
     (case displayName of
        DisplayString d \<Rightarrow> Inr d
      | DisplayAccessor d \<Rightarrow> Inr d
      | DisplayUndefined \<Rightarrow>
          (case propertyName of
             NameUndefined \<Rightarrow> Inl (TypeError ''Cannot read properties of undefined (reading toString)'')
           | NameNumber n \<Rightarrow>
               (let words = join '' '' (split_upper (int_toString n))
                in Inr (toUpperCase unicodeUpper (take 1 words) @ drop 1 words))
           | NameString s \<Rightarrow>
               (let words = join '' '' (split_upper s)
                in Inr (toUpperCase unicodeUpper (take 1 words) @ drop 1 words))))"

text \<open>
  The humanised name as the spec words it (section 4.6): a space goes in front of each
  upper-case letter after the first character, and the first character is capitalised.
\<close>

fun spaceBeforeUpper :: "string \<Rightarrow> string" where
  "spaceBeforeUpper [] = []"
| "spaceBeforeUpper (c # cs) =
     (if isUpperAZ c then CHR '' '' # c # spaceBeforeUpper cs else c # spaceBeforeUpper cs)"

definition humanize_spec :: "(char \<Rightarrow> string) \<Rightarrow> string \<Rightarrow> string" where
  "humanize_spec unicodeUpper s =
     (case s of [] \<Rightarrow> [] | c # cs \<Rightarrow> toUpperCase unicodeUpper [c] @ spaceBeforeUpper cs)"

section \<open>Regular expressions of parsePropertyName\<close>

text \<open>
  The two patterns of \<open>parsePropertyName\<close> are anchored at both ends and use character
  classes, sequence, alternation, \<open>?\<close>, \<open>*\<close> and \<open>+\<close> only, so each is a regular
  expression matched against the whole source text; matching is by derivatives.
  \<open>\s\<close> is given by its ASCII members.
\<close>

datatype regex = RNone | REps | RChars string | RSeq regex regex | RAlt regex regex | RStar regex

fun nullable :: "regex \<Rightarrow> bool" where
  "nullable RNone = False"
| "nullable REps = True"
| "nullable (RChars cs) = False"
| "nullable (RSeq r s) = (nullable r \<and> nullable s)"
| "nullable (RAlt r s) = (nullable r \<or> nullable s)"
| "nullable (RStar r) = True"

fun rseq :: "regex \<Rightarrow> regex \<Rightarrow> regex" where
  "rseq RNone s = RNone"
| "rseq r RNone = RNone"
| "rseq REps s = s"
| "rseq r s = RSeq r s"

fun ralt :: "regex \<Rightarrow> regex \<Rightarrow> regex" where
  "ralt RNone s = s"
| "ralt r RNone = r"
| "ralt r s = RAlt r s"

fun deriv :: "char \<Rightarrow> regex \<Rightarrow> regex" where
  "deriv c RNone = RNone"
| "deriv c REps = RNone"
| "deriv c (RChars cs) = (if List.member cs c then REps else RNone)"
| "deriv c (RSeq r s) =
     (if nullable r then ralt (rseq (deriv c r) s) (deriv c s) else rseq (deriv c r) s)"
| "deriv c (RAlt r s) = ralt (deriv c r) (deriv c s)"
| "deriv c (RStar r) = rseq (deriv c r) (RStar r)"

fun matches :: "regex \<Rightarrow> string \<Rightarrow> bool" where
  "matches r [] = nullable r"
| "matches r (c # cs) = matches (deriv c r) cs"

definition rplus :: "regex \<Rightarrow> regex" where
  "rplus r = RSeq r (RStar r)"

definition ropt :: "regex \<Rightarrow> regex" where
  "ropt r = RAlt r REps"

fun rlit :: "string \<Rightarrow> regex" where
  "rlit [] = REps"
| "rlit (c # cs) = RSeq (RChars [c]) (rlit cs)"

fun rseqs :: "regex list \<Rightarrow> regex" where
  "rseqs [] = REps"
| "rseqs (r # rs) = RSeq r (rseqs rs)"

text \<open>The classes \<open>[$_\w\d]\<close>, \<open>\s\<close>, \<open>["']\<close>, \<open>[$_\w\d.['"\]+;]\<close> and \<open>['"$_\w\d]\<close>.\<close>

definition word_chars :: string where
  "word_chars = ''$_abcdefghijklmnopqrstuvwxyzABCDEFGHIJKLMNOPQRSTUVWXYZ0123456789''"

definition space_chars :: string where
  "space_chars = [CHR '' '', CHR 0x09, CHR 0x0A, CHR 0x0B, CHR 0x0C, CHR 0x0D]"

definition rx_ident :: regex where
  "rx_ident = RChars word_chars"

definition rx_space :: regex where
  "rx_space = RChars space_chars"

definition rx_quote :: regex where
  "rx_quote = RChars [CHR 0x22, CHR 0x27]"

definition rx_statement :: regex where
  "rx_statement = RChars (word_chars @ [CHR ''.'', CHR ''['', CHR 0x27, CHR 0x22, CHR '']'', CHR ''+'', CHR '';''])"

definition rx_index :: regex where
  "rx_index = RChars ([CHR 0x27, CHR 0x22] @ word_chars)"

text \<open>
  Capture group 1 of both patterns, \<open>((\.[$_\w\d]+|\[['"$_\w\d]+\])+)\<close>, then what
  stands in front of it and behind it in \<open>classic\<close> and in \<open>arrow\<close>.
\<close>

definition accessor_group :: regex where
  "accessor_group =
     rplus (RAlt (RSeq (rlit ''.'') (rplus rx_ident))
                 (rseqs [rlit ''['', rplus rx_index, rlit '']'']))"

definition classic_before :: regex where
  "classic_before =
     rseqs [rlit ''function'', RStar rx_space, rlit ''('', rplus rx_ident, rlit '')'', RStar rx_space,
            rlit ''{'',
            ropt (rseqs [RStar rx_space, rx_quote, rlit ''use strict'', rx_quote, rlit '';'']),
            RStar rx_space, ropt (rplus rx_statement), RStar rx_space,
            rlit ''return'', rplus rx_space, rplus rx_ident]"

definition classic_after :: regex where
  "classic_after = rseqs [RStar rx_space, ropt (rlit '';''), RStar rx_space, rlit ''}'']"

definition arrow_before :: regex where
  "arrow_before =
     rseqs [ropt (rlit ''(''), rplus rx_ident, ropt (rlit '')''), RStar rx_space, rlit ''=>'',
            RStar rx_space, rplus rx_ident]"

definition arrow_after :: regex where
  "arrow_after = REps"

text \<open>
  \<open>exec_from before group after s\<close> is group 1 of a match of the whole of \<open>s\<close>, or None
  when there is none. The group is cut out the same way by every match: it ends where the
  closing part begins (the group holds no white space, semicolon or brace), and it begins
  at the first dot or bracket after the returned identifier (which holds neither).
  \<open>group_from\<close> carries the derivative of the group and the characters read so far.
\<close>

fun group_from :: "regex \<Rightarrow> regex \<Rightarrow> string \<Rightarrow> string \<Rightarrow> string option" where
  "group_from g t acc [] =
     (if nullable g then (if nullable t then Some (rev acc) else None) else None)"
| "group_from g t acc (c # cs) =
     (if nullable g
      then (if matches t (c # cs) then Some (rev acc) else group_from (deriv c g) t (c # acc) cs)
      else group_from (deriv c g) t (c # acc) cs)"

fun exec_from :: "regex \<Rightarrow> regex \<Rightarrow> regex \<Rightarrow> string \<Rightarrow> string option" where
  "exec_from b g t [] = (if nullable b then group_from g t [] [] else None)"
| "exec_from b g t (c # cs) =
     (if nullable b
      then (case group_from g t [] (c # cs) of
              Some m \<Rightarrow> Some m
            | None \<Rightarrow> exec_from (deriv c b) g t cs)
      else exec_from (deriv c b) g t cs)"

definition classic_exec :: "string \<Rightarrow> string option" where
  "classic_exec fn = exec_from classic_before accessor_group classic_after fn"

definition arrow_exec :: "string \<Rightarrow> string option" where
  "arrow_exec fn = exec_from arrow_before accessor_group arrow_after fn"

section \<open>parsePropertyName\<close>

text \<open>
  The argument by its \<open>typeof\<close>: a string, a function (given by its source text, which is
  what \<open>property.toString()\<close> returns), a number, or any other value (given by its string
  conversion, which the error message embeds).
\<close>

datatype property_arg = PString string | PFunction string | PNumber int | POther string

definition unable_to_parse :: "string \<Rightarrow> error" where
  "unable_to_parse src = Error (''Unable to parse accessor function:'' @ [CHR 0x0A] @ src)"

definition parse_property :: "parser \<Rightarrow> string \<Rightarrow> error + (string \<times> expr)" where
  "parse_property parse property =
     (case parse property BindingType_None of
        Inl e \<Rightarrow> Inl e
      | Inr expression \<Rightarrow> Inr (property, expression))"

definition parsePropertyName :: "parser \<Rightarrow> property_arg \<Rightarrow> error + (string \<times> expr)" where
  "parsePropertyName parse property =
     (case property of
        PString s \<Rightarrow> parse_property parse s
      | PFunction fn \<Rightarrow>
          (case (case classic_exec fn of Some m \<Rightarrow> Some m | None \<Rightarrow> arrow_exec fn) of
             None \<Rightarrow> Inl (unable_to_parse fn)
           | Some group1 \<Rightarrow> parse_property parse (drop 1 group1))
      | PNumber n \<Rightarrow> Inl (unable_to_parse (int_toString n))
      | POther s \<Rightarrow> Inl (unable_to_parse s))"

section \<open>Loose equality of property names\<close>

text \<open>
  \<open>ensure\<close> compares names with \<open>==\<close>. Between two strings, two numbers or two undefined
  values this is identity; undefined equals nothing else; a number and a string are equal
  when the string converts to that number. The conversion is given for the strings of
  decimal digits and for the empty string (which converts to 0); every other string counts
  as converting to no integer.
\<close>

definition digit_value :: "char \<Rightarrow> nat option" where
  "digit_value c = map_of (zip ''0123456789'' [0, 1, 2, 3, 4, 5, 6, 7, 8, 9]) c"

fun digits_value :: "nat \<Rightarrow> string \<Rightarrow> nat option" where
  "digits_value acc [] = Some acc"
| "digits_value acc (c # cs) =
     (case digit_value c of None \<Rightarrow> None | Some d \<Rightarrow> digits_value (10 * acc + d) cs)"

definition StringToNumber :: "string \<Rightarrow> int option" where
  "StringToNumber s = map_option int (digits_value 0 s)"

fun looseEq :: "propname \<Rightarrow> propname \<Rightarrow> bool" where
  "looseEq (NameString a) (NameString b) = (a = b)"
| "looseEq (NameNumber a) (NameNumber b) = (a = b)"
| "looseEq NameUndefined NameUndefined = True"
| "looseEq (NameNumber n) (NameString s) = (StringToNumber s = Some n)"
| "looseEq (NameString s) (NameNumber n) = (StringToNumber s = Some n)"
| "looseEq a b = False"

section \<open>Rules, property rules, builders and the world state\<close>

text \<open>
  Modelled from the spec: \<open>BaseValidationRule\<close> of the rules file is imported by the
  module and is not under src. Section 3 of the spec gives a rule as its message key, its
  compiled message, its optional tag, its guard \<open>canExecute(object)\<close> (true by default) and
  \<open>execute(value, object)\<close>, which returns a boolean or a pending boolean. A pending result
  is given by the number of ticks after which it settles; a result that settles by raising
  is outside the model. \<open>setMessage\<close> compiles the text with \<open>parseMessage\<close>.
\<close>

datatype outcome = Sync bool | Async nat bool

fun outcome_valid :: "outcome \<Rightarrow> bool" where
  "outcome_valid (Sync b) = b"
| "outcome_valid (Async d b) = b"

fun outcome_delay :: "outcome \<Rightarrow> nat" where
  "outcome_delay (Sync b) = 0"
| "outcome_delay (Async d b) = d"

record ('v, 'o) BaseValidationRule =
  messageKey :: "string option"
  message :: expr
  tag :: "string option"
  canExecute :: "'o option \<Rightarrow> bool"
  execute :: "'v \<Rightarrow> 'o option \<Rightarrow> outcome"

record RuleProperty =
  expression :: "expr option"
  name :: propname
  displayName :: displayname

text \<open>
  A \<open>PropertyRule\<close> holds the reference of its builder, its property, its stages
  (\<open>$rules\<close>, lists of references to rule objects) and \<open>latestRule\<close>. A
  \<open>ValidationRules\<close> builder holds the reference of its array of property rules and the
  targets it tracks, in insertion order. The message provider is the one shared instance;
  its only state is the log of warnings.
\<close>

record PropertyRule =
  validationRules :: ref
  property :: RuleProperty
  dollar_rules :: "ref list list"
  latestRule :: "ref option"

record 'o ValidationRules =
  rules :: ref
  targets :: "'o list"

record ('v, 'o) world =
  ruleHeap :: "('v, 'o) BaseValidationRule list"
  propertyRuleHeap :: "PropertyRule list"
  arrayHeap :: "ref list list"
  builderHeap :: "'o ValidationRules list"
  meta :: "'o metadata"
  warnings :: "string list"

section \<open>PropertyRule: the fluent builder\<close>

definition update_propertyRule ::
  "ref \<Rightarrow> (PropertyRule \<Rightarrow> PropertyRule) \<Rightarrow> ('v, 'o) world \<Rightarrow> ('v, 'o) world" where
  "update_propertyRule self f w =
     w\<lparr>propertyRuleHeap := (propertyRuleHeap w)[self := f (propertyRuleHeap w ! self)]\<rparr>"

definition update_rule ::
  "ref \<Rightarrow> (('v, 'o) BaseValidationRule \<Rightarrow> ('v, 'o) BaseValidationRule) \<Rightarrow> ('v, 'o) world
     \<Rightarrow> ('v, 'o) world" where
  "update_rule r f w = w\<lparr>ruleHeap := (ruleHeap w)[r := f (ruleHeap w ! r)]\<rparr>"

text \<open>
  \<open>addRule\<close> pushes onto the last stage. With no stage at all \<open>getLeafRules\<close> gives
  undefined and reading \<open>push\<close> of it throws before \<open>latestRule\<close> is assigned.
\<close>

definition PropertyRule_addRule ::
  "('v, 'o) world \<Rightarrow> ref \<Rightarrow> ref \<Rightarrow> (error + ref) \<times> ('v, 'o) world" where
  "PropertyRule_addRule w self rule =
     (let stages = dollar_rules (propertyRuleHeap w ! self)
      in if stages = []
         then (Inl (TypeError ''Cannot read properties of undefined (reading push)''), w)
         else (Inr self,
               update_propertyRule self
                 (\<lambda>pr. pr\<lparr>dollar_rules := butlast stages @ [last stages @ [rule]],
                          latestRule := Some rule\<rparr>) w))"

definition PropertyRule_then :: "('v, 'o) world \<Rightarrow> ref \<Rightarrow> ref \<times> ('v, 'o) world" where
  "PropertyRule_then w self =
     (self, update_propertyRule self (\<lambda>pr. pr\<lparr>dollar_rules := dollar_rules pr @ [[]]\<rparr>) w)"

definition assertLatesRule :: "ref option \<Rightarrow> error + ref" where
  "assertLatesRule latest =
     (case latest of None \<Rightarrow> Inl (Error ''No rule has been added'') | Some r \<Rightarrow> Inr r)"



definition PropertyRule_when ::
  "('v, 'o) world \<Rightarrow> ref \<Rightarrow> ('o option \<Rightarrow> bool) \<Rightarrow> (error + ref) \<times> ('v, 'o) world" where
  "PropertyRule_when w self condition =
     (case assertLatesRule (latestRule (propertyRuleHeap w ! self)) of
        Inl e \<Rightarrow> (Inl e, w)
      | Inr r \<Rightarrow> (Inr self, update_rule r (\<lambda>rl. rl\<lparr>canExecute := condition\<rparr>) w))"

definition PropertyRule_tag ::
  "('v, 'o) world \<Rightarrow> ref \<Rightarrow> string \<Rightarrow> (error + ref) \<times> ('v, 'o) world" where
  "PropertyRule_tag w self t =
     (case assertLatesRule (latestRule (propertyRuleHeap w ! self)) of
        Inl e \<Rightarrow> (Inl e, w)
      | Inr r \<Rightarrow> (Inr self, update_rule r (\<lambda>rl. rl\<lparr>tag := Some t\<rparr>) w))"

definition PropertyRule_displayName ::
  "('v, 'o) world \<Rightarrow> ref \<Rightarrow> displayname \<Rightarrow> ref \<times> ('v, 'o) world" where
  "PropertyRule_displayName w self nm =
     (self, update_propertyRule self (\<lambda>pr. pr\<lparr>property := (property pr)\<lparr>displayName := nm\<rparr>\<rparr>) w)"

text \<open>
  \<open>satisfiesRule\<close> adds a rule instance that exists already; \<open>satisfies\<close> allocates an
  ad-hoc rule around a condition. The ad-hoc rule has no message key and no tag, the
  default guard, and the message that the provider gives for it (a parameter here, the
  table of default messages being part of the rules file).
\<close>

definition PropertyRule_satisfiesRule ::
  "('v, 'o) world \<Rightarrow> ref \<Rightarrow> ref \<Rightarrow> (error + ref) \<times> ('v, 'o) world" where
  "PropertyRule_satisfiesRule w self validationRule = PropertyRule_addRule w self validationRule"

definition PropertyRule_satisfies ::
  "expr \<Rightarrow> ('v, 'o) world \<Rightarrow> ref \<Rightarrow> ('v \<Rightarrow> 'o option \<Rightarrow> outcome) \<Rightarrow> (error + ref) \<times> ('v, 'o) world" where
  "PropertyRule_satisfies defaultMessage w self condition =
     (let rule = length (ruleHeap w);
          w1 = w\<lparr>ruleHeap := ruleHeap w @
                 [\<lparr>messageKey = None, message = defaultMessage, tag = None,
                   canExecute = (\<lambda>_. True), execute = condition\<rparr>]\<rparr>
      in PropertyRule_addRule w1 self rule)"

section \<open>ValidationRules: the builder\<close>

definition ValidationRules_ensure ::
  "parser \<Rightarrow> ('v, 'o) world \<Rightarrow> ref \<Rightarrow> property_arg \<Rightarrow> (error + ref) \<times> ('v, 'o) world" where
  "ValidationRules_ensure parse w this prp =
     (case parsePropertyName parse prp of
        Inl e \<Rightarrow> (Inl e, w)
      | Inr (nm, expr) \<Rightarrow>
          (let arr = rules (builderHeap w ! this)
           in case List.find (\<lambda>r. looseEq (name (property (propertyRuleHeap w ! r))) (NameString nm))
                     (arrayHeap w ! arr) of
                Some rule \<Rightarrow> (Inr rule, w)
              | None \<Rightarrow>
                  (let rule = length (propertyRuleHeap w)
                   in (Inr rule,
                       w\<lparr>propertyRuleHeap := propertyRuleHeap w @
                            [\<lparr>validationRules = this,
                              property = \<lparr>expression = Some expr, name = NameString nm,
                                          displayName = DisplayUndefined\<rparr>,
                              dollar_rules = [[]], latestRule = None\<rparr>],
                         arrayHeap := (arrayHeap w)[arr := (arrayHeap w ! arr) @ [rule]]\<rparr>))))"

definition ValidationRules_ensureObject :: "('v, 'o) world \<Rightarrow> ref \<Rightarrow> ref \<times> ('v, 'o) world" where
  "ValidationRules_ensureObject w this =
     (let arr = rules (builderHeap w ! this);
          rule = length (propertyRuleHeap w)
      in (rule,
          w\<lparr>propertyRuleHeap := propertyRuleHeap w @
               [\<lparr>validationRules = this,
                 property = \<lparr>expression = None, name = NameUndefined, displayName = DisplayUndefined\<rparr>,
                 dollar_rules = [[]], latestRule = None\<rparr>],
            arrayHeap := (arrayHeap w)[arr := (arrayHeap w ! arr) @ [rule]]\<rparr>))"

text \<open>
  \<open>on\<close>: \<open>Object.is(rules, this.rules)\<close> compares references; \<open>rules ?? []\<close> allocates a
  new empty array when the target has no registered list; \<open>targets\<close> is a set, so a
  target is added once.
\<close>

definition ValidationRules_on ::
  "('v, 'o) world \<Rightarrow> ref \<Rightarrow> 'o \<Rightarrow> string option \<Rightarrow> ref \<times> ('v, 'o) world" where
  "ValidationRules_on w this target tg =
     (let registered = registrar_get target tg (meta w)
      in if registered = Some (rules (builderHeap w ! this)) then (this, w)
         else
           (let (arr, w1) = (case registered of
                               Some a \<Rightarrow> (a, w)
                             | None \<Rightarrow> (length (arrayHeap w), w\<lparr>arrayHeap := arrayHeap w @ [[]]\<rparr>));
                b = builderHeap w1 ! this
            in (this,
                w1\<lparr>builderHeap := (builderHeap w1)
                      [this := b\<lparr>rules := arr,
                                 targets := (if List.member (targets b) target then targets b
                                             else targets b @ [target])\<rparr>],
                   meta := registrar_set target arr tg (meta w1)\<rparr>)))"



definition PropertyRule_on ::
  "('v, 'o) world \<Rightarrow> ref \<Rightarrow> 'o \<Rightarrow> string option \<Rightarrow> ref \<times> ('v, 'o) world" where
  "PropertyRule_on w self target tg =
     ValidationRules_on w (validationRules (propertyRuleHeap w ! self)) target tg"

section \<open>PropertyRule.validate\<close>

text \<open>
  The scope that a failed rule's message is evaluated against, and the result of one rule.
  \<open>$getDisplayName\<close> is the function \<open>getDisplayName\<close> above; no template of the
  model calls it, so the scope does not carry it. The \<open>id\<close> of a result
  comes from a counter shared by all results and depends on the order in which results
  are built; it is left out, as are \<open>isManual\<close> (always false here) and the flags, which
  are only handed on to the evaluator.
\<close>

record ('v, 'o) scope =
  dollar_object :: "'o option"
  dollar_displayName :: propname
  dollar_propertyName :: propname
  dollar_value :: 'v
  dollar_rule :: ref

datatype 'o ValidationResult =
  ValidationResult (valid: bool) (result_message: "string option") (propertyName: propname)
    (object: "'o option") (rule: ref) (propertyRule: ref)

text \<open>
  Modelled from the spec: the evaluator of the expression facade (section 6 of the spec,
  \<open>evaluate(flags, scope, bindingContext)\<close>) is not under src. \<open>validate\<close> takes it as the
  parameter \<open>ev\<close>. \<open>evaluate_message\<close> gives it for the templates the claims name: literal
  text, an interpolation (its parts with the values of its expressions in between) and
  the scope variables \<open>$displayName\<close> and \<open>$propertyName\<close> when they hold a string or a
  number; every other expression is left to \<open>other\<close>.
\<close>

definition scope_lookup :: "string \<Rightarrow> ('v, 'o) scope \<Rightarrow> propname" where
  "scope_lookup nm sc =
     (if nm = ''$displayName'' then dollar_displayName sc
      else if nm = ''$propertyName'' then dollar_propertyName sc
      else NameUndefined)"

fun interleave :: "string list \<Rightarrow> string list \<Rightarrow> string" where
  "interleave [] vs = []"
| "interleave (p # ps) [] = p"
| "interleave (p # ps) (v # vs) = p @ v @ interleave ps vs"

fun evaluate_variable :: "(expr \<Rightarrow> ('v, 'o) scope \<Rightarrow> string) \<Rightarrow> expr \<Rightarrow> ('v, 'o) scope \<Rightarrow> string" where
  "evaluate_variable other (AccessScopeExpression nm a) sc =
     (if a = 0 then
        (case scope_lookup nm sc of
           NameString s \<Rightarrow> s
         | NameNumber n \<Rightarrow> int_toString n
         | NameUndefined \<Rightarrow> other (AccessScopeExpression nm a) sc)
      else other (AccessScopeExpression nm a) sc)"
| "evaluate_variable other (PrimitiveLiteralExpression s) sc = s"
| "evaluate_variable other e sc = other e sc"

fun evaluate_message :: "(expr \<Rightarrow> ('v, 'o) scope \<Rightarrow> string) \<Rightarrow> expr \<Rightarrow> ('v, 'o) scope \<Rightarrow> string" where
  "evaluate_message other (Interpolation parts expressions) sc =
     interleave parts (map (\<lambda>e. evaluate_variable other e sc) expressions)"
| "evaluate_message other e sc = evaluate_variable other e sc"

text \<open>
  The state of one call of \<open>validate\<close>: the flag \<open>isValid\<close>, the logical time, and the
  calls of \<open>execute\<close> made so far, each with the time at which its outcome settles.
\<close>

record run =
  isValid :: bool
  clock :: nat
  executed :: "(ref \<times> nat) list"

text \<open>
  \<open>validateRule\<close>: \<open>execute\<close> is called when the rule is launched; a pending outcome is
  awaited; then the flag is updated, the message is evaluated for a failed rule, and the
  result is built. The function returns the result with its settle time.
\<close>

definition resolvedDisplayName :: "RuleProperty \<Rightarrow> propname" where
  "resolvedDisplayName p =
     (case displayName p of
        DisplayAccessor d \<Rightarrow> NameString d
      | DisplayString d \<Rightarrow> NameString d
      | DisplayUndefined \<Rightarrow> name p)"

definition validateRule ::
  "(expr \<Rightarrow> ('v, 'o) scope \<Rightarrow> string) \<Rightarrow> ('v, 'o) world \<Rightarrow> ref \<Rightarrow> 'v \<Rightarrow> 'o option \<Rightarrow> ref \<Rightarrow> run
     \<Rightarrow> ('o ValidationResult \<times> nat) \<times> run" where
  "validateRule ev w self val obj r s =
     (let rl = ruleHeap w ! r;
          isValidOrPromise = execute rl val obj;
          ok = outcome_valid isValidOrPromise;
          settles = clock s + outcome_delay isValidOrPromise;
          p = property (propertyRuleHeap w ! self);
          msg = (if ok then None
                 else Some (ev (message rl)
                        \<lparr>dollar_object = obj, dollar_displayName = resolvedDisplayName p,
                         dollar_propertyName = name p, dollar_value = val, dollar_rule = r\<rparr>))
      in ((ValidationResult ok msg (name p) obj r self, settles),
          s\<lparr>isValid := (isValid s \<and> ok), executed := executed s @ [(r, settles)]\<rparr>))"

definition eligible :: "('v, 'o) world \<Rightarrow> 'o option \<Rightarrow> string option \<Rightarrow> ref \<Rightarrow> bool" where
  "eligible w obj tg r =
     (canExecute (ruleHeap w ! r) obj
      \<and> (case tg of None \<Rightarrow> True | Some t \<Rightarrow> tag (ruleHeap w ! r) = Some t))"

text \<open>The loop of \<open>validateRuleset\<close> that launches the eligible rules in declaration order.\<close>

fun launch ::
  "(expr \<Rightarrow> ('v, 'o) scope \<Rightarrow> string) \<Rightarrow> ('v, 'o) world \<Rightarrow> ref \<Rightarrow> 'v \<Rightarrow> 'o option \<Rightarrow> string option
     \<Rightarrow> ref list \<Rightarrow> run \<Rightarrow> ('o ValidationResult \<times> nat) list \<times> run" where
  "launch ev w self val obj tg [] s = ([], s)"
| "launch ev w self val obj tg (r # rest) s =
     (if eligible w obj tg r
      then (case validateRule ev w self val obj r s of
              (promise, s1) \<Rightarrow>
                (case launch ev w self val obj tg rest s1 of
                   (promises, s2) \<Rightarrow> (promise # promises, s2)))
      else launch ev w self val obj tg rest s)"

text \<open>
  \<open>Promise.all\<close> resolves with the results in the order of the promises it was given,
  once the last of them has settled.
\<close>

definition Promise_all :: "('a \<times> nat) list \<Rightarrow> run \<Rightarrow> 'a list \<times> run" where
  "Promise_all promises s = (map fst promises, s\<lparr>clock := fold max (map snd promises) (clock s)\<rparr>)"

definition validateRuleset ::
  "(expr \<Rightarrow> ('v, 'o) scope \<Rightarrow> string) \<Rightarrow> ('v, 'o) world \<Rightarrow> ref \<Rightarrow> 'v \<Rightarrow> 'o option \<Rightarrow> string option
     \<Rightarrow> ref list \<Rightarrow> run \<Rightarrow> 'o ValidationResult list \<times> run" where
  "validateRuleset ev w self val obj tg ruleset s =
     (case launch ev w self val obj tg ruleset s of (promises, s1) \<Rightarrow> Promise_all promises s1)"

definition accumulateResult ::
  "(expr \<Rightarrow> ('v, 'o) scope \<Rightarrow> string) \<Rightarrow> ('v, 'o) world \<Rightarrow> ref \<Rightarrow> 'v \<Rightarrow> 'o option \<Rightarrow> string option
     \<Rightarrow> 'o ValidationResult list \<Rightarrow> ref list \<Rightarrow> run \<Rightarrow> 'o ValidationResult list \<times> run" where
  "accumulateResult ev w self val obj tg results ruleset s =
     (case validateRuleset ev w self val obj tg ruleset s of
        (result, s1) \<Rightarrow> (results @ result, s1))"

text \<open>
  A promise of a value is a job that is run later, from the state it finds then.
  \<open>Promise.resolve\<close> and \<open>then\<close> build such jobs without running anything: the callback
  given to \<open>then\<close> runs only after the code that is running now has returned.
\<close>

type_synonym 'a promise = "run \<Rightarrow> 'a \<times> run"

definition Promise_resolve :: "'a \<Rightarrow> 'a promise" where
  "Promise_resolve v = (\<lambda>s. (v, s))"

definition Promise_then :: "'a promise \<Rightarrow> ('a \<Rightarrow> 'b promise) \<Rightarrow> 'b promise" where
  "Promise_then p f = (\<lambda>s. case p s of (v, s1) \<Rightarrow> f v s1)"

text \<open>
  The callback that \<open>validate\<close> hands to \<open>reduce\<close>. It has no \<open>await\<close>, so \<open>reduce\<close> calls it
  for every stage in turn before any job runs: \<open>now\<close> is the state at the time of that
  call, and the test of \<open>isValid\<close> reads \<open>now\<close>. The callback changes no state.
\<close>

definition reducer ::
  "(expr \<Rightarrow> ('v, 'o) scope \<Rightarrow> string) \<Rightarrow> ('v, 'o) world \<Rightarrow> ref \<Rightarrow> 'v \<Rightarrow> 'o option \<Rightarrow> string option
     \<Rightarrow> run \<Rightarrow> 'o ValidationResult list promise \<Rightarrow> ref list \<Rightarrow> 'o ValidationResult list promise" where
  "reducer ev w self val obj tg now acc ruleset =
     (if isValid now
      then Promise_then acc
             (\<lambda>accValidateResult. accumulateResult ev w self val obj tg accValidateResult ruleset)
      else acc)"

text \<open>
  \<open>validate\<close>: the flag starts true, \<open>reduce\<close> builds the chain from the state \<open>start\<close>,
  and the chain runs after \<open>validate\<close> has returned its promise. The value is the list
  of results the promise resolves with, and the final state of the run.
\<close>

definition PropertyRule_validate ::
  "(expr \<Rightarrow> ('v, 'o) scope \<Rightarrow> string) \<Rightarrow> ('v, 'o) world \<Rightarrow> ref \<Rightarrow> 'v \<Rightarrow> 'o option \<Rightarrow> string option
     \<Rightarrow> 'o ValidationResult list \<times> run" where
  "PropertyRule_validate ev w self val obj tg =
     (let start = \<lparr>isValid = True, clock = 0, executed = []\<rparr>;
          chain = foldl (reducer ev w self val obj tg start) (Promise_resolve [])
                    (dollar_rules (propertyRuleHeap w ! self))
      in chain start)"

section \<open>Notions used in the statements\<close>

text \<open>
  The result that one rule contributes and the delay and the verdict of its outcome;
  none of them depends on the state of the run.
\<close>

definition ruleResult ::
  "(expr \<Rightarrow> ('v, 'o) scope \<Rightarrow> string) \<Rightarrow> ('v, 'o) world \<Rightarrow> ref \<Rightarrow> 'v \<Rightarrow> 'o option \<Rightarrow> ref
     \<Rightarrow> 'o ValidationResult" where
  "ruleResult ev w self val obj r =
     fst (fst (validateRule ev w self val obj r \<lparr>isValid = True, clock = 0, executed = []\<rparr>))"

definition settleDelay :: "('v, 'o) world \<Rightarrow> 'v \<Rightarrow> 'o option \<Rightarrow> ref \<Rightarrow> nat" where
  "settleDelay w val obj r = outcome_delay (execute (ruleHeap w ! r) val obj)"

definition ruleValid :: "('v, 'o) world \<Rightarrow> 'v \<Rightarrow> 'o option \<Rightarrow> ref \<Rightarrow> bool" where
  "ruleValid w val obj r = outcome_valid (execute (ruleHeap w ! r) val obj)"

text \<open>
  \<open>parentTestFires\<close> is the test that \<open>parseMessage\<close> makes on a constituent
  expression of an interpolation before it throws; \<open>reservedName\<close> is its test before
  it warns, and \<open>warnings_of\<close> are the warnings it logs for a list of expressions.
\<close>

definition parentTestFires :: "expr \<Rightarrow> bool" where
  "parentTestFires e =
     (isAccessThis e \<or> (case expr_ancestor e of None \<Rightarrow> False | Some a \<Rightarrow> a > 0))"

text \<open>
  An expression references a parent scope, in the words of the spec (section 4.6), when
  \<open>$parent\<close> stands anywhere in it: it is \<open>$parent\<close> itself (an
  \<open>AccessThisExpression\<close> above ancestor 0), a variable of an ancestor scope, or a
  member access or an interpolation over such an expression.
\<close>

fun referencesParent :: "expr \<Rightarrow> bool"
  and referencesParent_list :: "expr list \<Rightarrow> bool" where
  "referencesParent (AccessThisExpression a) = (a > 0)"
| "referencesParent (AccessScopeExpression n a) = (a > 0)"
| "referencesParent (AccessMemberExpression e n) = referencesParent e"
| "referencesParent (OtherExpression n a) = (case a of None \<Rightarrow> False | Some k \<Rightarrow> k > 0)"
| "referencesParent (PrimitiveLiteralExpression s) = False"
| "referencesParent (Interpolation parts es) = referencesParent_list es"
| "referencesParent_list [] = False"
| "referencesParent_list (e # es) = (referencesParent e \<or> referencesParent_list es)"

definition reservedName :: "expr \<Rightarrow> bool" where
  "reservedName e =
     (case expr_name e of None \<Rightarrow> False | Some nm \<Rightarrow> List.member contextualProperties nm)"

definition warnings_of :: "string \<Rightarrow> expr list \<Rightarrow> string list" where
  "warnings_of msg es =
     map (\<lambda>e. warning_text (case expr_name e of None \<Rightarrow> [] | Some nm \<Rightarrow> nm) msg)
       (filter reservedName es)"

text \<open>The characters of the decimal digits of an integer.\<close>

definition plainChar :: "char \<Rightarrow> bool" where
  "plainChar c = List.member ''-0123456789'' c"

section \<open>Example states\<close>

definition empty_metadata :: "'o metadata" where
  "empty_metadata = \<lparr>annotationKeys = (\<lambda>_. None), annotations = (\<lambda>_ _. None)\<rparr>"

text \<open>
  Modelled from the spec: the parser is not under src. \<open>template_parser\<close> is an instance
  for the examples. It gives the compiled form of the three message templates that the
  spec names in section 8 and of \<open>${$parent.a.b}\<close> (a reference through \<open>$parent\<close> is
  a variable reference with ancestor 1, and \<open>.b\<close> a member access over it), compiles
  any other property text to a variable reference, and finds no interpolation in any
  other message text.
\<close>

definition template_parser :: parser where
  "template_parser src kind =
     (if src = ''${$parent.something}''
      then Inr (Interpolation ['''', ''''] [AccessScopeExpression ''something'' 1])
      else if src = ''${$parent.a.b}''
      then Inr (Interpolation ['''', '''']
                  [AccessMemberExpression (AccessScopeExpression ''a'' 1) ''b''])
      else if src = ''${value}''
      then Inr (Interpolation ['''', ''''] [AccessScopeExpression ''value'' 0])
      else if src = ''${$displayName} is required''
      then Inr (Interpolation ['''', '' is required''] [AccessScopeExpression ''$displayName'' 0])
      else (case kind of
              BindingType_None \<Rightarrow> Inr (AccessScopeExpression src 0)
            | BindingType_Interpolation \<Rightarrow> Inr (PrimitiveLiteralExpression src)))"

text \<open>
  The state after \<open>new ValidationRules(parser, messageProvider)\<close>: one builder, whose
  rules are a new empty array. \<open>required_template\<close> is the compiled form of the
  template \<open>${$displayName} is required\<close>. \<open>staged_world\<close> is reached by
  \<open>ensure('firstName').satisfies(() => false).then().satisfies(() => true)\<close>,
  \<open>mixed_world\<close> by \<open>ensure('firstName').satisfies(() => false).satisfies(p)\<close> where
  \<open>p\<close> resolves to true after 5 ticks.
\<close>

definition new_builder_world :: "('v, 'o) world" where
  "new_builder_world =
     \<lparr>ruleHeap = [], propertyRuleHeap = [], arrayHeap = [[]],
      builderHeap = [\<lparr>rules = 0, targets = []\<rparr>], meta = empty_metadata, warnings = []\<rparr>"

definition required_template :: expr where
  "required_template =
     Interpolation ['''', '' is required''] [AccessScopeExpression ''$displayName'' 0]"

definition staged_world :: "(unit, unit) world" where
  "staged_world =
     (let w1 = snd (ValidationRules_ensure template_parser new_builder_world 0 (PString ''firstName''));
          w2 = snd (PropertyRule_satisfies required_template w1 0 (\<lambda>_ _. Sync False));
          w3 = snd (PropertyRule_then w2 0)
      in snd (PropertyRule_satisfies required_template w3 0 (\<lambda>_ _. Sync True)))"

definition mixed_world :: "(unit, unit) world" where
  "mixed_world =
     (let w1 = snd (ValidationRules_ensure template_parser new_builder_world 0 (PString ''firstName''));
          w2 = snd (PropertyRule_satisfies required_template w1 0 (\<lambda>_ _. Sync False))
      in snd (PropertyRule_satisfies required_template w2 0 (\<lambda>_ _. Async 5 True)))"

text \<open>
  \<open>two_builders_world\<close>: two builders, after the first has called \<open>on\<close> for the target
  7. \<open>reuse_world\<close> is reached by \<open>rules.ensure('a').satisfies(() => false)\<close> followed
  by \<open>rules.ensure('b')\<close> on the same builder.
\<close>

definition two_builders_world :: "(unit, nat) world" where
  "two_builders_world =
     (let w0 = new_builder_world\<lparr>arrayHeap := [[], []],
                 builderHeap := [\<lparr>rules = 0, targets = []\<rparr>, \<lparr>rules = 1, targets = []\<rparr>]\<rparr>
      in snd (ValidationRules_on w0 0 7 None))"

definition reuse_world :: "(unit, unit) world" where
  "reuse_world =
     (let w1 = snd (ValidationRules_ensure template_parser new_builder_world 0 (PString ''a''));
          w2 = snd (PropertyRule_satisfies required_template w1 0 (\<lambda>_ _. Sync False))
      in snd (ValidationRules_ensure template_parser w2 0 (PString ''b'')))"

text \<open>
  \<open>tagged_world\<close> is reached by
  \<open>ensure('firstName').satisfies(() => false).tag('a').satisfies(() => true).tag('b')\<close>
  \<open>.satisfies(() => true).tag('a').when(() => false).satisfies(p).tag('a')\<close>, where
  \<open>p\<close> resolves to true after 5 ticks: one stage of four rules, of which the second
  has another tag and the third a guard that is false.
\<close>

definition tagged_world :: "(unit, unit) world" where
  "tagged_world =
     (let w1 = snd (ValidationRules_ensure template_parser new_builder_world 0 (PString ''firstName''));
          w2 = snd (PropertyRule_satisfies required_template w1 0 (\<lambda>_ _. Sync False));
          w3 = snd (PropertyRule_tag w2 0 ''a'');
          w4 = snd (PropertyRule_satisfies required_template w3 0 (\<lambda>_ _. Sync True));
          w5 = snd (PropertyRule_tag w4 0 ''b'');
          w6 = snd (PropertyRule_satisfies required_template w5 0 (\<lambda>_ _. Sync True));
          w7 = snd (PropertyRule_tag w6 0 ''a'');
          w8 = snd (PropertyRule_when w7 0 (\<lambda>_. False));
          w9 = snd (PropertyRule_satisfies required_template w8 0 (\<lambda>_ _. Async 5 True))
      in snd (PropertyRule_tag w9 0 ''a''))"

section \<open>The registrar: lemmas\<close>



lemma get_set_same:
  "registrar_get target tg (registrar_set target rs tg md) = Some rs"
  by (simp add: registrar_get_def registrar_set_def Let_def keyFor_def Metadata_define_def
      Metadata_getOwn_def Metadata_defineKeys_def Metadata_getOwnKeys_def split: option.splits)

lemma get_set_other:
  "tagOrDefault tg \<noteq> tagOrDefault tg' \<Longrightarrow>
   registrar_get target tg' (registrar_set target rs tg md) = registrar_get target tg' md"
  by (simp add: registrar_get_def registrar_set_def Let_def keyFor_def Metadata_define_def
      Metadata_getOwn_def Metadata_defineKeys_def Metadata_getOwnKeys_def split: option.splits)

lemma indexOf_notin: "x \<notin> set xs \<Longrightarrow> indexOf xs x = -1"
  by (induction xs) (auto simp: Let_def)

lemma indexOf_in: "x \<in> set xs \<Longrightarrow> 0 \<le> indexOf xs x \<and> nat (indexOf xs x) < length xs \<and> xs ! nat (indexOf xs x) = x"
  by (induction xs) (auto simp: Let_def nat_add_distrib)

lemma indexOf_ge: "-1 \<le> indexOf xs x"
  by (induction xs) (auto simp: Let_def)

lemma splice1_indexOf: "x \<in> set xs \<Longrightarrow> splice1 (indexOf xs x) xs = remove1 x xs"
proof (induction xs)
  case Nil
  then show ?case by simp
next
  case (Cons y ys)
  show ?case
  proof (cases "y = x")
    case True
    then show ?thesis by (simp add: splice1_def)
  next
    case False
    with Cons.prems have xin: "x \<in> set ys" by simp
    from indexOf_in[OF xin] have ge: "0 \<le> indexOf ys x" by simp
    have "indexOf ys x \<noteq> -1" using ge by simp
    with False have io: "indexOf (y # ys) x = indexOf ys x + 1" by (simp add: Let_def)
    have n: "nat (indexOf ys x + 1) = Suc (nat (indexOf ys x))" using ge by simp
    from Cons.IH[OF xin] have "take (nat (indexOf ys x)) ys @ drop (nat (indexOf ys x) + 1) ys = remove1 x ys"
      by (simp add: splice1_def)
    with False show ?thesis by (simp add: splice1_def io n del: indexOf.simps)
  qed
qed

lemma unset_step_keys:
  "annotationKeys (unset_step target tg key md) target =
     (if unset_matches tg key then
        (case annotationKeys md target of None \<Rightarrow> None | Some ks \<Rightarrow> Some (remove1 key ks))
      else annotationKeys md target)"
proof (cases "unset_matches tg key")
  case False
  then show ?thesis by (simp add: unset_step_def)
next
  case True
  show ?thesis
  proof (cases "annotationKeys md target")
    case None
    then show ?thesis using True
      by (simp add: unset_step_def Let_def Metadata_delete_def Metadata_getOwnKeys_def)
  next
    case (Some ks)
    show ?thesis
    proof (cases "key \<in> set ks")
      case True
      note kin = this
      from indexOf_in[OF kin] have "indexOf ks key > -1" by simp
      then show ?thesis using \<open>unset_matches tg key\<close> Some splice1_indexOf[OF kin]
        by (simp add: unset_step_def Let_def Metadata_delete_def Metadata_getOwnKeys_def
            Metadata_defineKeys_def)
    next
      case False
      then show ?thesis using \<open>unset_matches tg key\<close> Some indexOf_notin[OF False]
        by (simp add: unset_step_def Let_def Metadata_delete_def Metadata_getOwnKeys_def
            remove1_idem)
    qed
  qed
qed


lemma unset_step_annotations:
  "annotations (unset_step target tg key md) target k =
     (if unset_matches tg key \<and> keyFor key None = k then None else annotations md target k)"
  by (simp add: unset_step_def Let_def Metadata_delete_def Metadata_getOwnKeys_def
      Metadata_defineKeys_def)

lemma unset_loop_keys:
  "annotationKeys (unset_loop target tg copy md) target =
     map_option (fold (\<lambda>k l. if unset_matches tg k then remove1 k l else l) copy)
       (annotationKeys md target)"
proof (induction copy arbitrary: md)
  case Nil
  then show ?case by (simp add: option.map_ident)
next
  case (Cons key rest)
  show ?case
    by (cases "annotationKeys md target") (simp_all add: Cons.IH unset_step_keys)
qed

lemma unset_loop_annotations:
  "annotations (unset_loop target tg copy md) target k =
     (if list_ex (\<lambda>key. unset_matches tg key \<and> keyFor key None = k) copy then None
      else annotations md target k)"
  by (induction copy arbitrary: md) (simp_all add: unset_step_annotations)

lemma fold_no_match:
  "list_all (\<lambda>k. \<not> P k) copy \<Longrightarrow> fold (\<lambda>k l. if P k then remove1 k l else l) copy live = live"
  by (induction copy arbitrary: live) simp_all

lemma set_keys:
  "annotationKeys (registrar_set target rs tg md) target =
     Some ((case annotationKeys md target of None \<Rightarrow> [] | Some ks \<Rightarrow> ks)
             @ [registrar_name @ '':'' @ tagOrDefault tg])"
  by (simp add: registrar_set_def Let_def Metadata_define_def Metadata_getOwnKeys_def
      Metadata_defineKeys_def split: option.splits)

lemma startsWith_append: "startsWith (p @ s) p"
  by (simp add: startsWith_def)

lemma endsWith_append: "endsWith (s @ t) t"
  by (simp add: endsWith_def)

lemma unset_matches_own_key: "unset_matches (Some t) (registrar_name @ '':'' @ t)"
  using endsWith_append[of "registrar_name @ '':''" t]
  by (simp add: unset_matches_def startsWith_append)

lemma unset_after_set_keys:
  assumes "\<not> isValidationRulesSet target md"
  shows "annotationKeys (snd (registrar_unset target (Some t) (registrar_set target rs (Some t) md))) target
           = Some (case annotationKeys md target of None \<Rightarrow> [] | Some ks \<Rightarrow> ks)"
proof -
  define ks where "ks = (case annotationKeys md target of None \<Rightarrow> [] | Some ks \<Rightarrow> ks)"
  define key where "key = registrar_name @ '':'' @ t"
  have nostart: "list_all (\<lambda>k. \<not> startsWith k registrar_name) ks"
    using assms
    by (cases "annotationKeys md target")
       (auto simp: isValidationRulesSet_def Metadata_getOwnKeys_def ks_def list_ex_iff list_all_iff)
  then have nomatch: "list_all (\<lambda>k. \<not> unset_matches (Some t) k) ks"
    by (simp add: list_all_iff unset_matches_def)
  have keymatch: "unset_matches (Some t) key"
    unfolding key_def by (rule unset_matches_own_key)
  have "startsWith key registrar_name" by (simp add: key_def startsWith_append)
  with nostart have notin: "key \<notin> set ks" by (auto simp: list_all_iff)
  have keys1: "annotationKeys (registrar_set target rs (Some t) md) target = Some (ks @ [key])"
    by (simp add: set_keys ks_def key_def tagOrDefault_def)
  have "fold (\<lambda>k l. if unset_matches (Some t) k then remove1 k l else l) (ks @ [key]) (ks @ [key])
          = remove1 key (ks @ [key])"
    using fold_no_match[OF nomatch] keymatch by simp
  also have "\<dots> = ks" using notin by (simp add: remove1_append)
  finally show ?thesis
    using keys1
    by (simp add: registrar_unset_def Metadata_getOwnKeys_def unset_loop_keys ks_def[symmetric])
qed

text \<open>
  Claim C5. After \<open>set(target, rules, t)\<close>, \<open>get(target, t)\<close> returns the same list
  reference. When the target had no default rule set and \<open>t\<close> is not the name of the
  default set, \<open>get(target)\<close> without a tag still returns undefined. When no rule set was
  registered on the target before, \<open>unset(target, t)\<close> returns normally and afterwards
  \<open>isValidationRulesSet(target)\<close> is false, \<open>get(target, t)\<close> is undefined, and the key is
  no longer in the index of tracked keys.
\<close>

theorem registrar_round_trip:
  fixes md :: "'o metadata"
  shows "registrar_get target (Some t) (registrar_set target rs (Some t) md) = Some rs
       \<and> (registrar_get target None md = None \<and> t \<noteq> defaultRuleSetName \<longrightarrow>
            registrar_get target None (registrar_set target rs (Some t) md) = None)
       \<and> (\<not> isValidationRulesSet target md \<longrightarrow>
            fst (registrar_unset target (Some t) (registrar_set target rs (Some t) md)) = Inr ()
          \<and> \<not> isValidationRulesSet target
                (snd (registrar_unset target (Some t) (registrar_set target rs (Some t) md)))
          \<and> registrar_get target (Some t)
                (snd (registrar_unset target (Some t) (registrar_set target rs (Some t) md))) = None
          \<and> (\<forall>ks. annotationKeys
                (snd (registrar_unset target (Some t) (registrar_set target rs (Some t) md))) target
                  = Some ks \<longrightarrow> registrar_name @ '':'' @ t \<notin> set ks))"
proof (intro conjI impI)
  show "registrar_get target (Some t) (registrar_set target rs (Some t) md) = Some rs"
    by (rule get_set_same)
next
  assume "registrar_get target None md = None \<and> t \<noteq> defaultRuleSetName"
  then show "registrar_get target None (registrar_set target rs (Some t) md) = None"
    using get_set_other[of "Some t" None target rs md] by (simp add: tagOrDefault_def)
next
  let ?md1 = "registrar_set target rs (Some t) md"
  let ?md2 = "snd (registrar_unset target (Some t) ?md1)"
  let ?ks = "case annotationKeys md target of None \<Rightarrow> [] | Some ks \<Rightarrow> ks"
  assume fresh: "\<not> isValidationRulesSet target md"
  have keys2: "annotationKeys ?md2 target = Some ?ks"
    by (rule unset_after_set_keys[OF fresh])
  have nostart: "\<not> list_ex (\<lambda>k. startsWith k registrar_name) ?ks"
    using fresh by (simp add: isValidationRulesSet_def Metadata_getOwnKeys_def)
  show "fst (registrar_unset target (Some t) ?md1) = Inr ()"
    by (simp add: registrar_unset_def Metadata_getOwnKeys_def set_keys)
  show "\<not> isValidationRulesSet target ?md2"
    using nostart keys2 by (simp add: isValidationRulesSet_def Metadata_getOwnKeys_def)
  show "registrar_get target (Some t) ?md2 = None"
    using unset_matches_own_key[of t]
    by (simp add: registrar_get_def registrar_unset_def Metadata_getOwn_def Metadata_getOwnKeys_def
        set_keys unset_loop_annotations tagOrDefault_def keyFor_def)
  have "startsWith (registrar_name @ '':'' @ t) registrar_name" by (rule startsWith_append)
  with nostart have "registrar_name @ '':'' @ t \<notin> set ?ks" by (auto simp: list_ex_iff)
  with keys2 show "\<forall>ks. annotationKeys ?md2 target = Some ks \<longrightarrow> registrar_name @ '':'' @ t \<notin> set ks"
    by simp
qed

theorem registrar_round_trip_witness:
  "registrar_get (0::nat) (Some ''t1'') (registrar_set 0 7 (Some ''t1'') empty_metadata) = Some 7
   \<and> registrar_get (0::nat) None (registrar_set 0 7 (Some ''t1'') empty_metadata) = None
   \<and> fst (registrar_unset (0::nat) (Some ''t1'') (registrar_set 0 7 (Some ''t1'') empty_metadata))
       = Inr ()
   \<and> \<not> isValidationRulesSet (0::nat)
         (snd (registrar_unset 0 (Some ''t1'') (registrar_set 0 7 (Some ''t1'') empty_metadata)))
   \<and> registrar_get (0::nat) (Some ''t1'')
         (snd (registrar_unset 0 (Some ''t1'') (registrar_set 0 7 (Some ''t1'') empty_metadata)))
       = None"
proof -
  have h1: "\<not> isValidationRulesSet (0::nat) empty_metadata"
    by (simp add: isValidationRulesSet_def Metadata_getOwnKeys_def empty_metadata_def)
  have h2: "registrar_get (0::nat) None empty_metadata = None"
    by (simp add: registrar_get_def Metadata_getOwn_def empty_metadata_def)
  have h3: "''t1'' \<noteq> defaultRuleSetName" by (simp add: defaultRuleSetName_def)
  from registrar_round_trip[of "0::nat" "''t1''" 7 empty_metadata] h1 h2 h3 show ?thesis
    by blast
qed

text \<open>
  Claim C10. When the target has no index of tracked keys (nothing was ever registered on
  it), \<open>unset(target, tag)\<close> does not return normally: it throws a TypeError, reading
  \<open>slice\<close> of undefined, and changes nothing. After any \<open>set\<close> on the same target it
  returns normally.
\<close>

theorem unset_without_set_fails:
  "(annotationKeys md target = None \<longrightarrow>
      (\<exists>msg. registrar_unset target tg md = (Inl (TypeError msg), md)))
   \<and> fst (registrar_unset target tg (registrar_set target rs tg' md)) = Inr ()"
  by (simp add: registrar_unset_def Metadata_getOwnKeys_def set_keys)

theorem unset_without_set_fails_witness:
  "(\<exists>msg. registrar_unset (0::nat) (Some ''t1'') empty_metadata = (Inl (TypeError msg), empty_metadata))
   \<and> fst (registrar_unset (0::nat) (Some ''t1'') (registrar_set 0 7 None empty_metadata)) = Inr ()"
proof -
  have "annotationKeys empty_metadata (0::nat) = None" by (simp add: empty_metadata_def)
  with unset_without_set_fails[of empty_metadata "0::nat" "Some ''t1''" 7 None] show ?thesis
    by blast
qed

section \<open>The example states\<close>

lemma parse_firstName:
  "parsePropertyName template_parser (PString ''firstName'') =
     Inr (''firstName'', AccessScopeExpression ''firstName'' 0)"
  by (simp add: parsePropertyName_def parse_property_def template_parser_def)

lemma ensure_firstName:
  "ValidationRules_ensure template_parser (new_builder_world :: (unit, unit) world) 0 (PString ''firstName'') =
     (Inr 0,
      \<lparr>ruleHeap = [],
       propertyRuleHeap =
         [\<lparr>validationRules = 0,
           property = \<lparr>expression = Some (AccessScopeExpression ''firstName'' 0),
                       name = NameString ''firstName'', displayName = DisplayUndefined\<rparr>,
           dollar_rules = [[]], latestRule = None\<rparr>],
       arrayHeap = [[0]], builderHeap = [\<lparr>rules = 0, targets = []\<rparr>],
       meta = empty_metadata, warnings = []\<rparr>)"
  by (simp add: ValidationRules_ensure_def parse_firstName new_builder_world_def Let_def)

lemma staged_world_eq:
  "staged_world =
     \<lparr>ruleHeap =
        [\<lparr>messageKey = None, message = required_template, tag = None,
          canExecute = (\<lambda>_. True), execute = (\<lambda>_ _. Sync False)\<rparr>,
         \<lparr>messageKey = None, message = required_template, tag = None,
          canExecute = (\<lambda>_. True), execute = (\<lambda>_ _. Sync True)\<rparr>],
      propertyRuleHeap =
        [\<lparr>validationRules = 0,
          property = \<lparr>expression = Some (AccessScopeExpression ''firstName'' 0),
                      name = NameString ''firstName'', displayName = DisplayUndefined\<rparr>,
          dollar_rules = [[0], [1]], latestRule = Some 1\<rparr>],
      arrayHeap = [[0]], builderHeap = [\<lparr>rules = 0, targets = []\<rparr>],
      meta = empty_metadata, warnings = []\<rparr>"
  by (simp add: staged_world_def ensure_firstName PropertyRule_satisfies_def PropertyRule_addRule_def
      PropertyRule_then_def update_propertyRule_def Let_def)

lemma mixed_world_eq:
  "mixed_world =
     \<lparr>ruleHeap =
        [\<lparr>messageKey = None, message = required_template, tag = None,
          canExecute = (\<lambda>_. True), execute = (\<lambda>_ _. Sync False)\<rparr>,
         \<lparr>messageKey = None, message = required_template, tag = None,
          canExecute = (\<lambda>_. True), execute = (\<lambda>_ _. Async 5 True)\<rparr>],
      propertyRuleHeap =
        [\<lparr>validationRules = 0,
          property = \<lparr>expression = Some (AccessScopeExpression ''firstName'' 0),
                      name = NameString ''firstName'', displayName = DisplayUndefined\<rparr>,
          dollar_rules = [[0, 1]], latestRule = Some 1\<rparr>],
      arrayHeap = [[0]], builderHeap = [\<lparr>rules = 0, targets = []\<rparr>],
      meta = empty_metadata, warnings = []\<rparr>"
  by (simp add: mixed_world_def ensure_firstName PropertyRule_satisfies_def PropertyRule_addRule_def
      update_propertyRule_def Let_def)

lemma required_rendering:
  "evaluate_message other required_template
     \<lparr>dollar_object = obj, dollar_displayName = NameString nm, dollar_propertyName = pn,
      dollar_value = val, dollar_rule = r\<rparr> = nm @ '' is required''"
  by (simp add: required_template_def scope_lookup_def)

lemma two_builders_world_eq:
  "two_builders_world =
     \<lparr>ruleHeap = [], propertyRuleHeap = [], arrayHeap = [[], [], []],
      builderHeap = [\<lparr>rules = 2, targets = [7]\<rparr>, \<lparr>rules = 1, targets = []\<rparr>],
      meta = registrar_set 7 2 None empty_metadata, warnings = []\<rparr>"
  by (simp add: two_builders_world_def new_builder_world_def ValidationRules_on_def Let_def
      registrar_get_def Metadata_getOwn_def empty_metadata_def numeral_2_eq_2)

lemma ensure_a:
  "ValidationRules_ensure template_parser (new_builder_world :: (unit, unit) world) 0 (PString ''a'') =
     (Inr 0,
      \<lparr>ruleHeap = [],
       propertyRuleHeap =
         [\<lparr>validationRules = 0,
           property = \<lparr>expression = Some (AccessScopeExpression ''a'' 0),
                       name = NameString ''a'', displayName = DisplayUndefined\<rparr>,
           dollar_rules = [[]], latestRule = None\<rparr>],
       arrayHeap = [[0]], builderHeap = [\<lparr>rules = 0, targets = []\<rparr>],
       meta = empty_metadata, warnings = []\<rparr>)"
  by (simp add: ValidationRules_ensure_def parsePropertyName_def parse_property_def
      template_parser_def new_builder_world_def Let_def)

lemma reuse_world_step2:
  "snd (PropertyRule_satisfies required_template
          (snd (ValidationRules_ensure template_parser (new_builder_world :: (unit, unit) world) 0
                  (PString ''a''))) 0 (\<lambda>_ _. Sync False)) =
     \<lparr>ruleHeap =
        [\<lparr>messageKey = None, message = required_template, tag = None,
          canExecute = (\<lambda>_. True), execute = (\<lambda>_ _. Sync False)\<rparr>],
      propertyRuleHeap =
        [\<lparr>validationRules = 0,
          property = \<lparr>expression = Some (AccessScopeExpression ''a'' 0),
                      name = NameString ''a'', displayName = DisplayUndefined\<rparr>,
          dollar_rules = [[0]], latestRule = Some 0\<rparr>],
      arrayHeap = [[0]], builderHeap = [\<lparr>rules = 0, targets = []\<rparr>],
      meta = empty_metadata, warnings = []\<rparr>"
  by (simp add: ensure_a PropertyRule_satisfies_def PropertyRule_addRule_def
      update_propertyRule_def Let_def)

lemma parse_b:
  "parsePropertyName template_parser (PString ''b'') = Inr (''b'', AccessScopeExpression ''b'' 0)"
  by (simp add: parsePropertyName_def parse_property_def template_parser_def)

lemma parse_a:
  "parsePropertyName template_parser (PString ''a'') = Inr (''a'', AccessScopeExpression ''a'' 0)"
  by (simp add: parsePropertyName_def parse_property_def template_parser_def)

lemma reuse_world_eq:
  "reuse_world =
     \<lparr>ruleHeap =
        [\<lparr>messageKey = None, message = required_template, tag = None,
          canExecute = (\<lambda>_. True), execute = (\<lambda>_ _. Sync False)\<rparr>],
      propertyRuleHeap =
        [\<lparr>validationRules = 0,
          property = \<lparr>expression = Some (AccessScopeExpression ''a'' 0),
                      name = NameString ''a'', displayName = DisplayUndefined\<rparr>,
          dollar_rules = [[0]], latestRule = Some 0\<rparr>,
         \<lparr>validationRules = 0,
          property = \<lparr>expression = Some (AccessScopeExpression ''b'' 0),
                      name = NameString ''b'', displayName = DisplayUndefined\<rparr>,
          dollar_rules = [[]], latestRule = None\<rparr>],
      arrayHeap = [[0, 1]], builderHeap = [\<lparr>rules = 0, targets = []\<rparr>],
      meta = empty_metadata, warnings = []\<rparr>"
  unfolding reuse_world_def Let_def reuse_world_step2
  by (simp add: ValidationRules_ensure_def parse_b Let_def)

lemma satisfies_step:
  "snd (PropertyRule_satisfies m
          \<lparr>ruleHeap = rh,
           propertyRuleHeap = [\<lparr>validationRules = b, property = p, dollar_rules = [st], latestRule = l\<rparr>],
           arrayHeap = ah, builderHeap = bh, meta = md, warnings = ws\<rparr> 0 c) =
     \<lparr>ruleHeap = rh @ [\<lparr>messageKey = None, message = m, tag = None,
                         canExecute = (\<lambda>_. True), execute = c\<rparr>],
      propertyRuleHeap = [\<lparr>validationRules = b, property = p, dollar_rules = [st @ [length rh]],
                           latestRule = Some (length rh)\<rparr>],
      arrayHeap = ah, builderHeap = bh, meta = md, warnings = ws\<rparr>"
  by (simp add: PropertyRule_satisfies_def PropertyRule_addRule_def update_propertyRule_def Let_def)

lemma tag_step:
  "snd (PropertyRule_tag
          \<lparr>ruleHeap = rh,
           propertyRuleHeap = [\<lparr>validationRules = b, property = p, dollar_rules = sts, latestRule = Some r\<rparr>],
           arrayHeap = ah, builderHeap = bh, meta = md, warnings = ws\<rparr> 0 t) =
     \<lparr>ruleHeap = rh[r := (rh ! r)\<lparr>tag := Some t\<rparr>],
      propertyRuleHeap = [\<lparr>validationRules = b, property = p, dollar_rules = sts, latestRule = Some r\<rparr>],
      arrayHeap = ah, builderHeap = bh, meta = md, warnings = ws\<rparr>"
  by (simp add: PropertyRule_tag_def assertLatesRule_def update_rule_def)

lemma when_step:
  "snd (PropertyRule_when
          \<lparr>ruleHeap = rh,
           propertyRuleHeap = [\<lparr>validationRules = b, property = p, dollar_rules = sts, latestRule = Some r\<rparr>],
           arrayHeap = ah, builderHeap = bh, meta = md, warnings = ws\<rparr> 0 c) =
     \<lparr>ruleHeap = rh[r := (rh ! r)\<lparr>canExecute := c\<rparr>],
      propertyRuleHeap = [\<lparr>validationRules = b, property = p, dollar_rules = sts, latestRule = Some r\<rparr>],
      arrayHeap = ah, builderHeap = bh, meta = md, warnings = ws\<rparr>"
  by (simp add: PropertyRule_when_def assertLatesRule_def update_rule_def)

lemma tagged_world_eq:
  "tagged_world =
     \<lparr>ruleHeap =
        [\<lparr>messageKey = None, message = required_template, tag = Some ''a'',
          canExecute = (\<lambda>_. True), execute = (\<lambda>_ _. Sync False)\<rparr>,
         \<lparr>messageKey = None, message = required_template, tag = Some ''b'',
          canExecute = (\<lambda>_. True), execute = (\<lambda>_ _. Sync True)\<rparr>,
         \<lparr>messageKey = None, message = required_template, tag = Some ''a'',
          canExecute = (\<lambda>_. False), execute = (\<lambda>_ _. Sync True)\<rparr>,
         \<lparr>messageKey = None, message = required_template, tag = Some ''a'',
          canExecute = (\<lambda>_. True), execute = (\<lambda>_ _. Async 5 True)\<rparr>],
      propertyRuleHeap =
        [\<lparr>validationRules = 0,
          property = \<lparr>expression = Some (AccessScopeExpression ''firstName'' 0),
                      name = NameString ''firstName'', displayName = DisplayUndefined\<rparr>,
          dollar_rules = [[0, 1, 2, 3]], latestRule = Some 3\<rparr>],
      arrayHeap = [[0]], builderHeap = [\<lparr>rules = 0, targets = []\<rparr>],
      meta = empty_metadata, warnings = []\<rparr>"
  unfolding tagged_world_def Let_def ensure_firstName snd_conv
  by (simp add: satisfies_step tag_step when_step)

section \<open>validate: lemmas\<close>

lemma validateRule_eq:
  "validateRule ev w self val obj r s =
     ((ruleResult ev w self val obj r, clock s + settleDelay w val obj r),
      s\<lparr>isValid := (isValid s \<and> ruleValid w val obj r),
        executed := executed s @ [(r, clock s + settleDelay w val obj r)]\<rparr>)"
  by (simp add: validateRule_def ruleResult_def settleDelay_def ruleValid_def Let_def)

lemma launch_eq:
  "launch ev w self val obj tg rs s =
     (map (\<lambda>r. (ruleResult ev w self val obj r, clock s + settleDelay w val obj r))
        (filter (eligible w obj tg) rs),
      s\<lparr>isValid := (isValid s \<and> list_all (ruleValid w val obj) (filter (eligible w obj tg) rs)),
        executed := executed s @
          map (\<lambda>r. (r, clock s + settleDelay w val obj r)) (filter (eligible w obj tg) rs)\<rparr>)"
proof (induction rs arbitrary: s)
  case Nil
  then show ?case by simp
next
  case (Cons r rs)
  show ?case
  proof (cases "eligible w obj tg r")
    case True
    then show ?thesis by (simp add: Cons.IH validateRule_eq)
  next
    case False
    then show ?thesis by (simp add: Cons.IH)
  qed
qed

lemma fold_max_ge_init: "(a::nat) \<le> fold max xs a"
proof (induction xs arbitrary: a)
  case Nil
  then show ?case by simp
next
  case (Cons y ys)
  have "a \<le> max y a" by simp
  also have "\<dots> \<le> fold max ys (max y a)" by (rule Cons.IH)
  finally show ?case by simp
qed

lemma fold_max_ge_elem: "(x::nat) \<in> set xs \<Longrightarrow> x \<le> fold max xs a"
proof (induction xs arbitrary: a)
  case Nil
  then show ?case by simp
next
  case (Cons y ys)
  show ?case
  proof (cases "x = y")
    case True
    have "y \<le> max y a" by simp
    also have "\<dots> \<le> fold max ys (max y a)" by (rule fold_max_ge_init)
    finally show ?thesis using True by simp
  next
    case False
    with Cons.prems have "x \<in> set ys" by simp
    then show ?thesis by (simp add: Cons.IH)
  qed
qed

lemma validateRuleset_eq:
  "validateRuleset ev w self val obj tg rs s =
     (map (ruleResult ev w self val obj) (filter (eligible w obj tg) rs),
      s\<lparr>isValid := (isValid s \<and> list_all (ruleValid w val obj) (filter (eligible w obj tg) rs)),
        executed := executed s @
          map (\<lambda>r. (r, clock s + settleDelay w val obj r)) (filter (eligible w obj tg) rs),
        clock := fold max (map (\<lambda>r. clock s + settleDelay w val obj r) (filter (eligible w obj tg) rs))
                   (clock s)\<rparr>)"
  by (simp add: validateRuleset_def launch_eq Promise_all_def comp_def)


lemma reducer_valid:
  "isValid now \<Longrightarrow>
   reducer ev w self val obj tg now acc rs =
     Promise_then acc (\<lambda>a. accumulateResult ev w self val obj tg a rs)"
  by (simp add: reducer_def)

lemma accumulateResult_eq:
  "accumulateResult ev w self val obj tg results rs s =
     (results @ map (ruleResult ev w self val obj) (filter (eligible w obj tg) rs),
      snd (validateRuleset ev w self val obj tg rs s))"
  by (simp add: accumulateResult_def validateRuleset_eq)

lemma chain_snoc:
  assumes "isValid now"
  shows "foldl (reducer ev w self val obj tg now) acc (stages @ [rs]) s =
           accumulateResult ev w self val obj tg
             (fst (foldl (reducer ev w self val obj tg now) acc stages s)) rs
             (snd (foldl (reducer ev w self val obj tg now) acc stages s))"
  by (simp add: reducer_valid[OF assms] Promise_then_def split: prod.splits)

lemma chain_results:
  assumes "isValid now"
  shows "fst (foldl (reducer ev w self val obj tg now) (Promise_resolve []) stages s) =
           map (ruleResult ev w self val obj) (concat (map (filter (eligible w obj tg)) stages))"
proof (induction stages rule: rev_induct)
  case Nil
  then show ?case by (simp add: Promise_resolve_def)
next
  case (snoc rs stages)
  show ?case
    by (simp only: chain_snoc[OF assms] accumulateResult_eq fst_conv snoc.IH) simp
qed

lemma chain_executed:
  assumes "isValid now"
  shows "map fst (executed (snd (foldl (reducer ev w self val obj tg now) (Promise_resolve []) stages s))) =
           map fst (executed s) @ concat (map (filter (eligible w obj tg)) stages)"
proof (induction stages rule: rev_induct)
  case Nil
  then show ?case by (simp add: Promise_resolve_def)
next
  case (snoc rs stages)
  show ?case
    by (simp only: chain_snoc[OF assms] accumulateResult_eq snd_conv validateRuleset_eq)
       (simp add: snoc.IH comp_def)
qed

lemma chain_settled:
  assumes "isValid now" and "list_all (\<lambda>(r, t). t \<le> clock s) (executed s)"
  shows "list_all (\<lambda>(r, t). t \<le> clock (snd (foldl (reducer ev w self val obj tg now) (Promise_resolve []) stages s)))
           (executed (snd (foldl (reducer ev w self val obj tg now) (Promise_resolve []) stages s)))"
proof (induction stages rule: rev_induct)
  case Nil
  then show ?case using assms(2) by (simp add: Promise_resolve_def)
next
  case (snoc rs stages)
  let ?s1 = "snd (foldl (reducer ev w self val obj tg now) (Promise_resolve []) stages s)"
  let ?el = "filter (eligible w obj tg) rs"
  let ?times = "map (\<lambda>r. clock ?s1 + settleDelay w val obj r) ?el"
  have old: "list_all (\<lambda>(r, t). t \<le> fold max ?times (clock ?s1)) (executed ?s1)"
    using snoc.IH fold_max_ge_init[of "clock ?s1" ?times]
    by (auto simp: list_all_iff intro: le_trans)
  have new: "list_all (\<lambda>(r, t). t \<le> fold max ?times (clock ?s1))
               (map (\<lambda>r. (r, clock ?s1 + settleDelay w val obj r)) ?el)"
    using fold_max_ge_elem[of _ ?times "clock ?s1"]
    by (auto simp: list_all_iff)
  show ?case
    by (simp only: chain_snoc[OF assms(1)] accumulateResult_eq snd_conv validateRuleset_eq)
       (simp add: old new)
qed

lemma eligible_eq:
  "eligible w obj tg =
     (\<lambda>r. canExecute (ruleHeap w ! r) obj \<and> (tg = None \<or> tag (ruleHeap w ! r) = tg))"
  by (cases tg) (auto simp: eligible_def fun_eq_iff)

lemma ruleResult_fields:
  "rule (ruleResult ev w self val obj r) = r"
  "valid (ruleResult ev w self val obj r) = outcome_valid (execute (ruleHeap w ! r) val obj)"
  "propertyRule (ruleResult ev w self val obj r) = self"
  by (simp_all add: ruleResult_def validateRule_def Let_def)

text \<open>
  Claim C8. A rule of a stage is eligible when its guard \<open>canExecute(object)\<close> is true
  and, when a tag is given, its tag equals that tag. For every stage, \<open>validateRuleset\<close>
  executes exactly the eligible rules of the stage, each once and in declaration order;
  its results are the verdicts of those rules in declaration order, whatever the delays
  of the outcomes; and it resolves no earlier than the last outcome settles. \<open>validate\<close>
  returns the stages' results one stage after the other, and resolves after every outcome
  has settled.
\<close>

theorem validate_stage_results_in_declaration_order:
  fixes w :: "('v, 'o) world"
  defines "P \<equiv> \<lambda>obj tg r. canExecute (ruleHeap w ! r) obj \<and> (tg = None \<or> tag (ruleHeap w ! r) = tg)"
  shows
  "map rule (fst (validateRuleset ev w self val obj tg ruleset s)) = filter (P obj tg) ruleset
   \<and> map valid (fst (validateRuleset ev w self val obj tg ruleset s)) =
       map (\<lambda>r. outcome_valid (execute (ruleHeap w ! r) val obj)) (filter (P obj tg) ruleset)
   \<and> executed (snd (validateRuleset ev w self val obj tg ruleset s)) =
       executed s @ map (\<lambda>r. (r, clock s + outcome_delay (execute (ruleHeap w ! r) val obj)))
                      (filter (P obj tg) ruleset)
   \<and> list_all (\<lambda>r. clock s + outcome_delay (execute (ruleHeap w ! r) val obj)
                      \<le> clock (snd (validateRuleset ev w self val obj tg ruleset s)))
       (filter (P obj tg) ruleset)
   \<and> map rule (fst (PropertyRule_validate ev w self val obj tg)) =
       concat (map (filter (P obj tg)) (dollar_rules (propertyRuleHeap w ! self)))
   \<and> map valid (fst (PropertyRule_validate ev w self val obj tg)) =
       map (\<lambda>r. outcome_valid (execute (ruleHeap w ! r) val obj))
         (concat (map (filter (P obj tg)) (dollar_rules (propertyRuleHeap w ! self))))
   \<and> map fst (executed (snd (PropertyRule_validate ev w self val obj tg))) =
       concat (map (filter (P obj tg)) (dollar_rules (propertyRuleHeap w ! self)))
   \<and> list_all (\<lambda>(r, t). t \<le> clock (snd (PropertyRule_validate ev w self val obj tg)))
       (executed (snd (PropertyRule_validate ev w self val obj tg)))"
proof -
  let ?start = "\<lparr>isValid = True, clock = 0, executed = []\<rparr>"
  have P: "P obj tg = eligible w obj tg" by (simp add: P_def eligible_eq)
  let ?el = "filter (eligible w obj tg) ruleset"
  let ?all = "concat (map (filter (eligible w obj tg)) (dollar_rules (propertyRuleHeap w ! self)))"
  have v: "isValid ?start" by simp
  have a: "map rule (fst (validateRuleset ev w self val obj tg ruleset s)) = ?el"
    by (simp add: validateRuleset_eq comp_def ruleResult_fields)
  have b: "map valid (fst (validateRuleset ev w self val obj tg ruleset s)) =
       map (\<lambda>r. outcome_valid (execute (ruleHeap w ! r) val obj)) ?el"
    by (simp add: validateRuleset_eq comp_def ruleResult_fields)
  have c: "executed (snd (validateRuleset ev w self val obj tg ruleset s)) =
       executed s @ map (\<lambda>r. (r, clock s + outcome_delay (execute (ruleHeap w ! r) val obj))) ?el"
    by (simp add: validateRuleset_eq settleDelay_def)
  have d0: "list_all (\<lambda>r. clock s + settleDelay w val obj r
                      \<le> clock (snd (validateRuleset ev w self val obj tg ruleset s))) ?el"
    using fold_max_ge_elem[of _ "map (\<lambda>r. clock s + settleDelay w val obj r) ?el" "clock s"]
    by (auto simp: validateRuleset_eq list_all_iff)
  have d: "list_all (\<lambda>r. clock s + outcome_delay (execute (ruleHeap w ! r) val obj)
                      \<le> clock (snd (validateRuleset ev w self val obj tg ruleset s))) ?el"
    using d0 unfolding settleDelay_def .
  have res: "fst (PropertyRule_validate ev w self val obj tg) = map (ruleResult ev w self val obj) ?all"
    by (simp add: PropertyRule_validate_def Let_def chain_results[OF v])
  have e: "map rule (fst (PropertyRule_validate ev w self val obj tg)) = ?all"
    by (simp only: res) (simp add: comp_def ruleResult_fields)
  have f: "map valid (fst (PropertyRule_validate ev w self val obj tg)) =
       map (\<lambda>r. outcome_valid (execute (ruleHeap w ! r) val obj)) ?all"
    by (simp only: res) (simp add: comp_def ruleResult_fields)
  have g: "map fst (executed (snd (PropertyRule_validate ev w self val obj tg))) = ?all"
    using chain_executed[OF v, of ev w self val obj tg "dollar_rules (propertyRuleHeap w ! self)" ?start]
    by (simp add: PropertyRule_validate_def Let_def)
  have h: "list_all (\<lambda>(r, t). t \<le> clock (snd (PropertyRule_validate ev w self val obj tg)))
       (executed (snd (PropertyRule_validate ev w self val obj tg)))"
    using chain_settled[OF v, of ?start ev w self val obj tg "dollar_rules (propertyRuleHeap w ! self)"]
    by (simp add: PropertyRule_validate_def Let_def)
  from a b c d e f g h show ?thesis unfolding P by blast
qed

text \<open>
  The stage of \<open>tagged_world\<close> holds, in this order, a rule tagged \<open>a\<close> that fails at
  once, a rule tagged \<open>b\<close>, a rule tagged \<open>a\<close> whose guard is false, and a rule tagged
  \<open>a\<close> that passes after 5 ticks. With the tag \<open>a\<close> the first and the last are
  executed and give two results in declaration order, resolved no earlier than time 5;
  with no tag the guarded rule alone is left out.
\<close>

theorem validate_stage_results_in_declaration_order_witness:
  "map rule (fst (PropertyRule_validate (evaluate_message (\<lambda>_ _. [])) tagged_world 0 () None
                    (Some ''a''))) = [0, 3]
   \<and> map valid (fst (PropertyRule_validate (evaluate_message (\<lambda>_ _. [])) tagged_world 0 () None
                    (Some ''a''))) = [False, True]
   \<and> map fst (executed (snd (PropertyRule_validate (evaluate_message (\<lambda>_ _. [])) tagged_world 0 ()
                    None (Some ''a'')))) = [0, 3]
   \<and> map rule (fst (PropertyRule_validate (evaluate_message (\<lambda>_ _. [])) tagged_world 0 () None
                    None)) = [0, 1, 3]
   \<and> executed (snd (validateRuleset (evaluate_message (\<lambda>_ _. [])) tagged_world 0 () None
                    (Some ''a'') [0, 1, 2, 3] \<lparr>isValid = True, clock = 0, executed = []\<rparr>))
       = [(0, 0), (3, 5)]
   \<and> 5 \<le> clock (snd (validateRuleset (evaluate_message (\<lambda>_ _. [])) tagged_world 0 () None
                    (Some ''a'') [0, 1, 2, 3] \<lparr>isValid = True, clock = 0, executed = []\<rparr>))"
proof -
  let ?ev = "evaluate_message (\<lambda>_ _. []) :: expr \<Rightarrow> (unit, unit) scope \<Rightarrow> string"
  let ?s = "\<lparr>isValid = True, clock = 0, executed = []\<rparr>"
  let ?Pa = "\<lambda>r. canExecute (ruleHeap tagged_world ! r) None
                \<and> (Some ''a'' = None \<or> tag (ruleHeap tagged_world ! r) = Some ''a'')"
  let ?Pn = "\<lambda>r. canExecute (ruleHeap tagged_world ! r) None
                \<and> ((None :: string option) = None \<or> tag (ruleHeap tagged_world ! r) = None)"
  have fa: "filter ?Pa [0, 1, 2, 3] = [0, 3]"
    by (simp add: tagged_world_eq)
  have ca: "concat (map (filter ?Pa) (dollar_rules (propertyRuleHeap tagged_world ! 0))) = [0, 3]"
    by (simp add: tagged_world_eq)
  have cn: "concat (map (filter ?Pn) (dollar_rules (propertyRuleHeap tagged_world ! 0))) = [0, 1, 3]"
    by (simp add: tagged_world_eq)
  have va: "map (\<lambda>r. outcome_valid (execute (ruleHeap tagged_world ! r) () None)) [0, 3] = [False, True]"
    by (simp add: tagged_world_eq)
  have ex: "[] @ map (\<lambda>r. (r, 0 + outcome_delay (execute (ruleHeap tagged_world ! r) () None)))
                [0, 3] = [(0, 0), (3, 5)]"
    by (simp add: tagged_world_eq)
  note t1 = validate_stage_results_in_declaration_order[where w = tagged_world and ev = ?ev
      and self = 0 and val = "()" and obj = None and tg = "Some ''a''" and ruleset = "[0, 1, 2, 3]"
      and s = ?s]
  note t2 = validate_stage_results_in_declaration_order[where w = tagged_world and ev = ?ev
      and self = 0 and val = "()" and obj = None and tg = None and ruleset = "[]" and s = ?s]
  have a: "map rule (fst (PropertyRule_validate ?ev tagged_world 0 () None (Some ''a''))) = [0, 3]"
    using t1[THEN conjunct2, THEN conjunct2, THEN conjunct2, THEN conjunct2, THEN conjunct1]
    by (simp only: ca)
  have b: "map valid (fst (PropertyRule_validate ?ev tagged_world 0 () None (Some ''a''))) = [False, True]"
    using t1[THEN conjunct2, THEN conjunct2, THEN conjunct2, THEN conjunct2, THEN conjunct2,
             THEN conjunct1]
    by (simp only: ca va)
  have c: "map fst (executed (snd (PropertyRule_validate ?ev tagged_world 0 () None (Some ''a'')))) = [0, 3]"
    using t1[THEN conjunct2, THEN conjunct2, THEN conjunct2, THEN conjunct2, THEN conjunct2,
             THEN conjunct2, THEN conjunct1]
    by (simp only: ca)
  have d: "map rule (fst (PropertyRule_validate ?ev tagged_world 0 () None None)) = [0, 1, 3]"
    using t2[THEN conjunct2, THEN conjunct2, THEN conjunct2, THEN conjunct2, THEN conjunct1]
    by (simp only: cn)
  have e: "executed (snd (validateRuleset ?ev tagged_world 0 () None (Some ''a'') [0, 1, 2, 3] ?s))
       = [(0, 0), (3, 5)]"
    using t1[THEN conjunct2, THEN conjunct2, THEN conjunct1]
    by (simp only: fa ex run.simps)
  have "list_all (\<lambda>r. clock ?s + outcome_delay (execute (ruleHeap tagged_world ! r) () None)
           \<le> clock (snd (validateRuleset ?ev tagged_world 0 () None (Some ''a'') [0, 1, 2, 3] ?s)))
          [0, 3]"
    using t1[THEN conjunct2, THEN conjunct2, THEN conjunct2, THEN conjunct1]
    by (simp only: fa)
  then have f: "5 \<le> clock (snd (validateRuleset ?ev tagged_world 0 () None (Some ''a'') [0, 1, 2, 3] ?s))"
    by (simp add: tagged_world_eq)
  from a b c d e f show ?thesis by (simp only: simp_thms)
qed

text \<open>
  Claim C1, evaluated on the code. The property rule built by
  \<open>ensure('firstName').satisfies(() => false).then().satisfies(() => true)\<close> has the
  failing rule in stage 0 and the passing rule in stage 1. \<open>validate\<close> returns two
  results, and the rule of stage 1 is executed: the test of \<open>isValid\<close> is made for every
  stage before any rule has run.
\<close>

theorem validate_runs_stage_after_failed_stage:
  "dollar_rules (propertyRuleHeap staged_world ! 0) = [[0], [1]]
   \<and> \<not> ruleValid staged_world () None 0
   \<and> fst (PropertyRule_validate (evaluate_message other) staged_world 0 () None None) =
       [ValidationResult False (Some ''firstName is required'') (NameString ''firstName'') None 0 0,
        ValidationResult True None (NameString ''firstName'') None 1 0]
   \<and> map fst (executed (snd (PropertyRule_validate (evaluate_message other) staged_world 0 () None None)))
       = [0, 1]"
  by (simp add: staged_world_eq PropertyRule_validate_def reducer_def Promise_then_def
      Promise_resolve_def accumulateResult_def validateRuleset_def Promise_all_def eligible_def
      validateRule_def resolvedDisplayName_def required_rendering ruleValid_def Let_def)

section \<open>parseMessage: lemmas\<close>

lemma check_ok:
  "\<not> list_ex parentTestFires es \<Longrightarrow>
   checkExpressions msg es log = (None, log @ warnings_of msg es)"
proof (induction es arbitrary: log)
  case Nil
  then show ?case by (simp add: warnings_of_def)
next
  case (Cons e es)
  from Cons.prems have ne: "\<not> parentTestFires e" and rest: "\<not> list_ex parentTestFires es"
    by simp_all
  from ne have c: "\<not> (isAccessThis e \<or> (case expr_ancestor e of None \<Rightarrow> False | Some a \<Rightarrow> a > 0))"
    by (simp add: parentTestFires_def)
  show ?case
    using c Cons.IH[OF rest]
    by (cases "expr_name e") (simp_all add: Let_def warnings_of_def reservedName_def)
qed

lemma check_fail:
  "list_ex parentTestFires es \<Longrightarrow>
   fst (checkExpressions msg es log) =
     Some (Error ''$parent is not permitted in validation message expressions.'')"
proof (induction es arbitrary: log)
  case Nil
  then show ?case by simp
next
  case (Cons e es)
  show ?case
  proof (cases "parentTestFires e")
    case True
    then have "isAccessThis e \<or> (case expr_ancestor e of None \<Rightarrow> False | Some a \<Rightarrow> a > 0)"
      by (simp add: parentTestFires_def)
    then show ?thesis by (simp add: Let_def)
  next
    case False
    then have c: "\<not> (isAccessThis e \<or> (case expr_ancestor e of None \<Rightarrow> False | Some a \<Rightarrow> a > 0))"
      by (simp add: parentTestFires_def)
    from False Cons.prems have "list_ex parentTestFires es" by simp
    from Cons.IH[OF this] c show ?thesis by (simp add: Let_def)
  qed
qed

text \<open>
  What \<open>parseMessage\<close> does with an interpolation: it throws when its test fires on one
  of the constituent expressions, and otherwise returns the interpolation and logs one
  warning for each constituent expression whose name is a reserved contextual name. The
  templates \<open>${$parent.something}\<close> and \<open>${value}\<close> are the examples.
\<close>

lemma parseMessage_top_level_test:
  "(parse msg BindingType_Interpolation = Inr (Interpolation parts es)
      \<and> list_ex parentTestFires es \<longrightarrow>
    fst (parseMessage parse msg log) =
      Inl (Error ''$parent is not permitted in validation message expressions.''))
   \<and> (parse msg BindingType_Interpolation = Inr (Interpolation parts es)
      \<and> \<not> list_ex parentTestFires es \<longrightarrow>
    parseMessage parse msg log =
      (Inr (Interpolation parts es), log @ warnings_of msg es))"
proof (intro conjI impI)
  assume a: "parse msg BindingType_Interpolation = Inr (Interpolation parts es)
      \<and> list_ex parentTestFires es"
  then have "fst (checkExpressions msg es log) =
     Some (Error ''$parent is not permitted in validation message expressions.'')"
    by (simp add: check_fail)
  then show "fst (parseMessage parse msg log) =
      Inl (Error ''$parent is not permitted in validation message expressions.'')"
    using a by (cases "checkExpressions msg es log") (simp add: parseMessage_def)
next
  assume a: "parse msg BindingType_Interpolation = Inr (Interpolation parts es)
      \<and> \<not> list_ex parentTestFires es"
  then show "parseMessage parse msg log =
      (Inr (Interpolation parts es), log @ warnings_of msg es)"
    by (simp add: parseMessage_def check_ok)
qed

lemma parseMessage_top_level_test_examples:
  "fst (parseMessage template_parser ''${$parent.something}'' []) =
      Inl (Error ''$parent is not permitted in validation message expressions.'')
   \<and> parseMessage template_parser ''${value}'' [] =
      (Inr (Interpolation ['''', ''''] [AccessScopeExpression ''value'' 0]),
       [warning_text ''value'' ''${value}''])"
proof -
  have p1: "template_parser ''${$parent.something}'' BindingType_Interpolation =
      Inr (Interpolation ['''', ''''] [AccessScopeExpression ''something'' 1])
      \<and> list_ex parentTestFires [AccessScopeExpression ''something'' 1]"
    by (simp add: template_parser_def parentTestFires_def)
  have p2: "template_parser ''${value}'' BindingType_Interpolation =
      Inr (Interpolation ['''', ''''] [AccessScopeExpression ''value'' 0])
      \<and> \<not> list_ex parentTestFires [AccessScopeExpression ''value'' 0]"
    by (simp add: template_parser_def parentTestFires_def)
  have w: "warnings_of ''${value}'' [AccessScopeExpression ''value'' 0] = [warning_text ''value'' ''${value}'']"
    by (simp add: warnings_of_def reservedName_def contextualProperties_def)
  from parseMessage_top_level_test[of template_parser "''${$parent.something}''"
        "['''', '''']" "[AccessScopeExpression ''something'' 1]" "[]"] p1
  have a: "fst (parseMessage template_parser ''${$parent.something}'' []) =
      Inl (Error ''$parent is not permitted in validation message expressions.'')"
    by blast
  from parseMessage_top_level_test[of template_parser "''${value}''"
        "['''', '''']" "[AccessScopeExpression ''value'' 0]" "[]"] p2
  have b: "parseMessage template_parser ''${value}'' [] =
      (Inr (Interpolation ['''', ''''] [AccessScopeExpression ''value'' 0]),
       [] @ warnings_of ''${value}'' [AccessScopeExpression ''value'' 0])"
    by blast
  from a b w show ?thesis by simp
qed

text \<open>
  Claim C6, evaluated on the code. The template \<open>${$parent.a.b}\<close> compiles to an
  interpolation whose one constituent expression is a member access over a variable of
  the parent scope. The expression references the parent scope, and \<open>parseMessage\<close>
  does not throw: it returns the interpolation and logs nothing, because its test reads
  the \<open>ancestor\<close> of the constituent expression itself and a member access has none.
  The template \<open>${$parent.something}\<close>, a variable of the parent scope, does throw.
\<close>

theorem parseMessage_accepts_nested_parent_reference:
  "template_parser ''${$parent.a.b}'' BindingType_Interpolation =
      Inr (Interpolation ['''', ''''] [AccessMemberExpression (AccessScopeExpression ''a'' 1) ''b''])
   \<and> referencesParent (AccessMemberExpression (AccessScopeExpression ''a'' 1) ''b'')
   \<and> \<not> parentTestFires (AccessMemberExpression (AccessScopeExpression ''a'' 1) ''b'')
   \<and> parseMessage template_parser ''${$parent.a.b}'' [] =
      (Inr (Interpolation ['''', ''''] [AccessMemberExpression (AccessScopeExpression ''a'' 1) ''b'']),
       [])
   \<and> referencesParent (AccessScopeExpression ''something'' 1)
   \<and> fst (parseMessage template_parser ''${$parent.something}'' []) =
      Inl (Error ''$parent is not permitted in validation message expressions.'')"
  by (simp add: template_parser_def parseMessage_def parentTestFires_def contextualProperties_def
      Let_def)

section \<open>getDisplayName and message rendering\<close>

lemma splitBeforeUpper_nonempty: "splitBeforeUpper cur cs \<noteq> []"
  by (induction cs arbitrary: cur) simp_all

lemma join_splitBeforeUpper:
  "join '' '' (splitBeforeUpper cur cs) = cur @ spaceBeforeUpper cs"
proof (induction cs arbitrary: cur)
  case Nil
  then show ?case by simp
next
  case (Cons c cs)
  show ?case
  proof (cases "isUpperAZ c")
    case True
    obtain p ps where sp: "splitBeforeUpper [c] cs = p # ps"
      using splitBeforeUpper_nonempty[of "[c]" cs] by (cases "splitBeforeUpper [c] cs") auto
    have "join '' '' (cur # splitBeforeUpper [c] cs) = cur @ '' '' @ join '' '' (splitBeforeUpper [c] cs)"
      by (simp add: sp)
    then show ?thesis using True Cons.IH[of "[c]"] by simp
  next
    case False
    then show ?thesis using Cons.IH[of "cur @ [c]"] by simp
  qed
qed

lemma words_eq:
  "join '' '' (split_upper s) = (case s of [] \<Rightarrow> [] | c # cs \<Rightarrow> c # spaceBeforeUpper cs)"
  by (cases s) (simp_all add: split_upper_def join_splitBeforeUpper)

lemma humanize_words:
  "toUpperCase up (take 1 (join '' '' (split_upper s))) @ drop 1 (join '' '' (split_upper s))
     = humanize_spec up s"
  by (cases s) (simp_all add: words_eq humanize_spec_def toUpperCase_def)

lemma getDisplayName_humanize:
  "getDisplayName up (NameString s) DisplayUndefined = Inr (humanize_spec up s)"
  unfolding getDisplayName_def Let_def
  by (simp only: displayname.case propname.case humanize_words)

lemma getDisplayName_number:
  "getDisplayName up (NameNumber n) DisplayUndefined = Inr (humanize_spec up (int_toString n))"
  unfolding getDisplayName_def Let_def
  by (simp only: displayname.case propname.case humanize_words)

lemma humanize_firstName: "humanize_spec up ''firstName'' = ''First Name''"
  by (simp add: humanize_spec_def toUpperCase_def toUpperCase_ascii_def lower_chars_def
      upper_chars_def isUpperAZ_def)

lemma plainChar_cases:
  "plainChar c \<Longrightarrow> c \<in> set ''-0123456789''"
  by (simp add: plainChar_def)

lemma plainChar_props:
  assumes "plainChar c"
  shows "\<not> digit7 c \<and> toUpperCase_ascii c = c \<and> \<not> isUpperAZ c"
proof -
  have "\<forall>x \<in> set ''-0123456789''. \<not> digit7 x \<and> toUpperCase_ascii x = x \<and> \<not> isUpperAZ x"
    by (simp add: toUpperCase_ascii_def lower_chars_def upper_chars_def isUpperAZ_def)
  with plainChar_cases[OF assms] show ?thesis by blast
qed

lemma digit_char_plain: "d < 10 \<Longrightarrow> plainChar (digit_char d)"
proof -
  assume "d < 10"
  then have "''0123456789'' ! d \<in> set ''0123456789''" by (intro nth_mem) simp
  then have "''0123456789'' ! d \<in> set ''-0123456789''" by simp
  then show ?thesis by (simp add: plainChar_def digit_char_def)
qed

lemma nat_toString_plain: "list_all plainChar (nat_toString n)"
proof (induction n rule: nat_toString.induct)
  case (1 n)
  show ?case
  proof (cases "n < 10")
    case True
    then have "nat_toString n = [digit_char n]" by (subst nat_toString.simps) simp
    with True show ?thesis by (simp add: digit_char_plain del: nat_toString.simps)
  next
    case False
    have m: "n mod 10 < 10" by simp
    from False have "nat_toString n = nat_toString (n div 10) @ [digit_char (n mod 10)]"
      by (subst nat_toString.simps) simp
    with False 1 digit_char_plain[OF m] show ?thesis
      by (simp del: nat_toString.simps)
  qed
qed

lemma int_toString_plain: "list_all plainChar (int_toString n)"
proof -
  have "plainChar CHR ''-''" by (simp add: plainChar_def)
  then show ?thesis by (simp add: int_toString_def nat_toString_plain del: nat_toString.simps)
qed

lemma spaceBeforeUpper_plain: "list_all plainChar cs \<Longrightarrow> spaceBeforeUpper cs = cs"
  by (induction cs) (simp_all add: plainChar_props)

lemma humanize_plain: "list_all plainChar s \<Longrightarrow> humanize_spec up s = s"
  by (cases s) (simp_all add: humanize_spec_def toUpperCase_def plainChar_props spaceBeforeUpper_plain)

lemma getDisplayName_number_digits:
  "getDisplayName up (NameNumber n) DisplayUndefined = Inr (int_toString n)"
  by (simp add: getDisplayName_number humanize_plain int_toString_plain)

lemma humanize_nonascii:
  "digit7 c \<Longrightarrow> humanize_spec up (c # cs) = up c @ spaceBeforeUpper cs"
  by (simp add: humanize_spec_def toUpperCase_def)

lemma humanize_ascii:
  "\<not> digit7 c \<Longrightarrow> humanize_spec up (c # cs) = toUpperCase_ascii c # spaceBeforeUpper cs"
  by (simp add: humanize_spec_def toUpperCase_def)

text \<open>
  Claim C3, as amended. With no explicit display name, \<open>getDisplayName\<close> of a string
  name puts a space in front of each letter A to Z after the first character and
  upper-cases the first character (an ASCII letter a to z becomes A to Z, a character
  outside ASCII becomes what the case tables of the language give), all other
  characters unchanged: \<open>firstName\<close> becomes \<open>First Name\<close>. A number name, an integer
  of magnitude below \<open>2^53\<close>, is given by its decimal digits unchanged.
  \<open>validate\<close> does not call \<open>getDisplayName\<close>: with no explicit display name
  \<open>$displayName\<close> is the property name itself, so a failed rule whose message is the
  compiled template \<open>${$displayName} is required\<close> on the property \<open>nm\<close> gets the
  message \<open>nm is required\<close>.
\<close>

theorem getDisplayName_humanizes_validate_renders_raw_name:
  "getDisplayName unicodeUpper (NameString pn) DisplayUndefined = Inr (humanize_spec unicodeUpper pn)
   \<and> getDisplayName unicodeUpper (NameString []) DisplayUndefined = Inr []
   \<and> (\<not> digit7 c \<longrightarrow>
        getDisplayName unicodeUpper (NameString (c # cs)) DisplayUndefined
          = Inr (toUpperCase_ascii c # spaceBeforeUpper cs))
   \<and> (digit7 c \<longrightarrow>
        getDisplayName unicodeUpper (NameString (c # cs)) DisplayUndefined
          = Inr (unicodeUpper c @ spaceBeforeUpper cs))
   \<and> (abs n \<le> 9007199254740991 \<longrightarrow>
        getDisplayName unicodeUpper (NameNumber n) DisplayUndefined = Inr (int_toString n))
   \<and> getDisplayName unicodeUpper (NameString ''firstName'') DisplayUndefined = Inr ''First Name''
   \<and> (name (property (propertyRuleHeap w ! self)) = NameString nm
        \<and> displayName (property (propertyRuleHeap w ! self)) = DisplayUndefined
        \<and> message (ruleHeap w ! r) = required_template
        \<and> \<not> ruleValid w val obj r \<longrightarrow>
      result_message (fst (fst (validateRule (evaluate_message other) w self val obj r s)))
        = Some (nm @ '' is required''))"
proof (intro conjI impI)
  show "getDisplayName unicodeUpper (NameString pn) DisplayUndefined = Inr (humanize_spec unicodeUpper pn)"
    by (rule getDisplayName_humanize)
  show "getDisplayName unicodeUpper (NameString []) DisplayUndefined = Inr []"
    by (simp add: getDisplayName_humanize humanize_spec_def)
  show "getDisplayName unicodeUpper (NameString ''firstName'') DisplayUndefined = Inr ''First Name''"
    by (simp add: getDisplayName_humanize humanize_firstName)
next
  assume "\<not> digit7 c"
  then show "getDisplayName unicodeUpper (NameString (c # cs)) DisplayUndefined
          = Inr (toUpperCase_ascii c # spaceBeforeUpper cs)"
    by (simp add: getDisplayName_humanize humanize_ascii)
next
  assume "digit7 c"
  then show "getDisplayName unicodeUpper (NameString (c # cs)) DisplayUndefined
          = Inr (unicodeUpper c @ spaceBeforeUpper cs)"
    by (simp add: getDisplayName_humanize humanize_nonascii)
next
  show "getDisplayName unicodeUpper (NameNumber n) DisplayUndefined = Inr (int_toString n)"
    by (rule getDisplayName_number_digits)
next
  assume "name (property (propertyRuleHeap w ! self)) = NameString nm
        \<and> displayName (property (propertyRuleHeap w ! self)) = DisplayUndefined
        \<and> message (ruleHeap w ! r) = required_template
        \<and> \<not> ruleValid w val obj r"
  then show "result_message (fst (fst (validateRule (evaluate_message other) w self val obj r s)))
        = Some (nm @ '' is required'')"
    by (simp add: validateRule_def ruleValid_def resolvedDisplayName_def required_rendering Let_def)
qed

theorem getDisplayName_humanizes_validate_renders_raw_name_witness:
  "getDisplayName (\<lambda>c. [c]) (NameString ''firstName'') DisplayUndefined = Inr ''First Name''
   \<and> getDisplayName (\<lambda>_. [CHR 0xC9]) (NameString [CHR 0xE9, CHR ''a'', CHR ''B'']) DisplayUndefined
       = Inr [CHR 0xC9, CHR ''a'', CHR '' '', CHR ''B'']
   \<and> getDisplayName (\<lambda>c. [c]) (NameNumber 42) DisplayUndefined = Inr ''42''
   \<and> result_message (fst (fst (validateRule (evaluate_message (\<lambda>_ _. [])) staged_world 0 () None 0
         \<lparr>isValid = True, clock = 0, executed = []\<rparr>))) = Some ''firstName is required''"
proof -
  have h: "name (property (propertyRuleHeap staged_world ! 0)) = NameString ''firstName''
        \<and> displayName (property (propertyRuleHeap staged_world ! 0)) = DisplayUndefined
        \<and> message (ruleHeap staged_world ! 0) = required_template
        \<and> \<not> ruleValid staged_world () None 0"
    by (simp add: staged_world_eq ruleValid_def)
  have n: "abs (42::int) \<le> 9007199254740991" by simp
  have i: "int_toString 42 = ''42''"
    by (simp add: int_toString_def digit_char_def)
  note t1 = getDisplayName_humanizes_validate_renders_raw_name[where unicodeUpper = "\<lambda>c. [c]"
         and n = 42 and c = "CHR ''f''" and cs = "''irstName''"
         and w = staged_world and self = 0 and nm = "''firstName''" and r = 0 and val = "()"
         and obj = None and other = "\<lambda>_ _. []"
         and s = "\<lparr>isValid = True, clock = 0, executed = []\<rparr>"]
  note t2 = getDisplayName_humanizes_validate_renders_raw_name[where unicodeUpper = "\<lambda>_. [CHR 0xC9]"
         and c = "CHR 0xE9" and cs = "[CHR ''a'', CHR ''B'']"]
  have d0: "\<not> digit7 (CHR ''f'')" by simp
  from t1[THEN conjunct2, THEN conjunct2, THEN conjunct1, THEN mp, OF d0]
  have a: "getDisplayName (\<lambda>c. [c]) (NameString ''firstName'') DisplayUndefined = Inr ''First Name''"
    by (simp add: toUpperCase_ascii_def lower_chars_def upper_chars_def isUpperAZ_def)
  from t1 h n
  have b: "getDisplayName (\<lambda>c. [c]) (NameNumber 42) DisplayUndefined = Inr (int_toString 42)"
    and c: "result_message (fst (fst (validateRule (evaluate_message (\<lambda>_ _. [])) staged_world 0 () None 0
         \<lparr>isValid = True, clock = 0, executed = []\<rparr>))) = Some (''firstName'' @ '' is required'')"
    by blast+
  have d7: "digit7 (CHR 0xE9)" by simp
  from t2[THEN conjunct2, THEN conjunct2, THEN conjunct2, THEN conjunct1, THEN mp, OF d7]
  have "getDisplayName (\<lambda>_. [CHR 0xC9]) (NameString (CHR 0xE9 # [CHR ''a'', CHR ''B''])) DisplayUndefined
       = Inr ([CHR 0xC9] @ spaceBeforeUpper [CHR ''a'', CHR ''B''])"
    .
  then have d: "getDisplayName (\<lambda>_. [CHR 0xC9]) (NameString [CHR 0xE9, CHR ''a'', CHR ''B'']) DisplayUndefined
       = Inr [CHR 0xC9, CHR ''a'', CHR '' '', CHR ''B'']"
    by (simp add: isUpperAZ_def upper_chars_def)
  from a b c d i show ?thesis by simp
qed

text \<open>
  Claim C3 as stated fails: on the property \<open>firstName\<close> the template renders
  \<open>firstName is required\<close>, and the humanised name is not \<open>First name\<close> either.
\<close>

theorem required_message_rendering_counterexample:
  "template_parser ''${$displayName} is required'' BindingType_Interpolation = Inr required_template
   \<and> result_message (hd (fst (PropertyRule_validate (evaluate_message (\<lambda>_ _. [])) staged_world 0 () None None)))
       = Some ''firstName is required''
   \<and> result_message (hd (fst (PropertyRule_validate (evaluate_message (\<lambda>_ _. [])) staged_world 0 () None None)))
       \<noteq> Some ''First name is required''
   \<and> getDisplayName (\<lambda>c. [c]) (NameString ''firstName'') DisplayUndefined = Inr ''First Name''
   \<and> getDisplayName (\<lambda>c. [c]) (NameString ''firstName'') DisplayUndefined \<noteq> Inr ''First name''"
proof -
  have a: "template_parser ''${$displayName} is required'' BindingType_Interpolation = Inr required_template"
    by (simp add: template_parser_def required_template_def)
  have b: "result_message (hd (fst (PropertyRule_validate (evaluate_message (\<lambda>_ _. [])) staged_world 0 () None None)))
       = Some ''firstName is required''"
    by (simp add: staged_world_eq PropertyRule_validate_def reducer_def Promise_then_def
      Promise_resolve_def accumulateResult_def validateRuleset_def Promise_all_def eligible_def
      validateRule_def resolvedDisplayName_def required_rendering Let_def)
  have c: "getDisplayName (\<lambda>c. [c]) (NameString ''firstName'') DisplayUndefined = Inr ''First Name''"
    by (simp add: getDisplayName_humanize humanize_firstName)
  from a b c show ?thesis by simp
qed

section \<open>The builder: lemmas\<close>





lemma find_append_new:
  assumes "List.find P xs = None" and "P x"
  shows "List.find P (xs @ [x]) = Some x"
  using assms by (induction xs) (auto split: if_splits)

lemma find_cong_on:
  assumes "\<And>x. x \<in> set xs \<Longrightarrow> P x = Q x"
  shows "List.find P xs = List.find Q xs"
  using assms by (induction xs) auto

text \<open>
  Claim C2. \<open>on(target, tag)\<close> changes nothing when the list registered on the target
  for the tag is the builder's own list (the same reference). Otherwise, for a builder of
  the world: when the target has a registered list for the tag, the builder's \<open>rules\<close>
  become that list; when it has none, they become a new empty array; in both cases the
  list is then registered on the target for the tag and the target is among the builder's
  tracked targets.
\<close>

theorem on_is_noop_or_adopts_and_registers:
  "(registrar_get target tg (meta w) = Some (rules (builderHeap w ! this)) \<longrightarrow>
      ValidationRules_on w this target tg = (this, w))
   \<and> (registrar_get target tg (meta w) = Some a \<and> a \<noteq> rules (builderHeap w ! this)
        \<and> this < length (builderHeap w) \<longrightarrow>
      fst (ValidationRules_on w this target tg) = this
      \<and> rules (builderHeap (snd (ValidationRules_on w this target tg)) ! this) = a
      \<and> arrayHeap (snd (ValidationRules_on w this target tg)) = arrayHeap w
      \<and> registrar_get target tg (meta (snd (ValidationRules_on w this target tg))) = Some a
      \<and> List.member (targets (builderHeap (snd (ValidationRules_on w this target tg)) ! this)) target)
   \<and> (registrar_get target tg (meta w) = None \<and> this < length (builderHeap w) \<longrightarrow>
      fst (ValidationRules_on w this target tg) = this
      \<and> rules (builderHeap (snd (ValidationRules_on w this target tg)) ! this) = length (arrayHeap w)
      \<and> arrayHeap (snd (ValidationRules_on w this target tg)) = arrayHeap w @ [[]]
      \<and> registrar_get target tg (meta (snd (ValidationRules_on w this target tg)))
           = Some (length (arrayHeap w))
      \<and> List.member (targets (builderHeap (snd (ValidationRules_on w this target tg)) ! this)) target)"
proof (intro conjI impI)
  assume "registrar_get target tg (meta w) = Some (rules (builderHeap w ! this))"
  then show "ValidationRules_on w this target tg = (this, w)"
    by (simp add: ValidationRules_on_def)
next
  assume h: "registrar_get target tg (meta w) = Some a \<and> a \<noteq> rules (builderHeap w ! this)
        \<and> this < length (builderHeap w)"
  then have eq: "ValidationRules_on w this target tg =
      (this, w\<lparr>builderHeap := (builderHeap w)
                  [this := (builderHeap w ! this)\<lparr>rules := a,
                     targets := (if List.member (targets (builderHeap w ! this)) target
                                 then targets (builderHeap w ! this)
                                 else targets (builderHeap w ! this) @ [target])\<rparr>],
               meta := registrar_set target a tg (meta w)\<rparr>)"
    by (simp add: ValidationRules_on_def Let_def)
  show "fst (ValidationRules_on w this target tg) = this" by (simp add: eq)
  show "rules (builderHeap (snd (ValidationRules_on w this target tg)) ! this) = a"
    using h by (simp add: eq)
  show "arrayHeap (snd (ValidationRules_on w this target tg)) = arrayHeap w" by (simp add: eq)
  show "registrar_get target tg (meta (snd (ValidationRules_on w this target tg))) = Some a"
    by (simp add: eq get_set_same)
  show "List.member (targets (builderHeap (snd (ValidationRules_on w this target tg)) ! this)) target"
    using h by (simp add: eq)
next
  assume h: "registrar_get target tg (meta w) = None \<and> this < length (builderHeap w)"
  then have eq: "ValidationRules_on w this target tg =
      (this, w\<lparr>arrayHeap := arrayHeap w @ [[]],
               builderHeap := (builderHeap w)
                  [this := (builderHeap w ! this)\<lparr>rules := length (arrayHeap w),
                     targets := (if List.member (targets (builderHeap w ! this)) target
                                 then targets (builderHeap w ! this)
                                 else targets (builderHeap w ! this) @ [target])\<rparr>],
               meta := registrar_set target (length (arrayHeap w)) tg (meta w)\<rparr>)"
    by (simp add: ValidationRules_on_def Let_def)
  show "fst (ValidationRules_on w this target tg) = this" by (simp add: eq)
  show "rules (builderHeap (snd (ValidationRules_on w this target tg)) ! this) = length (arrayHeap w)"
    using h by (simp add: eq)
  show "arrayHeap (snd (ValidationRules_on w this target tg)) = arrayHeap w @ [[]]" by (simp add: eq)
  show "registrar_get target tg (meta (snd (ValidationRules_on w this target tg)))
           = Some (length (arrayHeap w))"
    by (simp add: eq get_set_same)
  show "List.member (targets (builderHeap (snd (ValidationRules_on w this target tg)) ! this)) target"
    using h by (simp add: eq)
qed

theorem on_is_noop_or_adopts_and_registers_witness:
  "ValidationRules_on two_builders_world 0 7 None = (0, two_builders_world)
   \<and> rules (builderHeap (snd (ValidationRules_on two_builders_world 1 7 None)) ! 1) = 2
   \<and> registrar_get 7 None (meta (snd (ValidationRules_on two_builders_world 1 7 None))) = Some 2
   \<and> rules (builderHeap (snd (ValidationRules_on two_builders_world 1 8 None)) ! 1) = 3
   \<and> arrayHeap (snd (ValidationRules_on two_builders_world 1 8 None)) = [[], [], [], []]
   \<and> registrar_get 8 None (meta (snd (ValidationRules_on two_builders_world 1 8 None))) = Some 3"
proof -
  have g7: "registrar_get 7 None (meta two_builders_world) = Some 2"
    by (simp add: two_builders_world_eq get_set_same)
  have g8: "registrar_get 8 None (meta two_builders_world) = None"
    by (simp add: two_builders_world_eq registrar_get_def registrar_set_def Let_def
        Metadata_getOwn_def Metadata_define_def Metadata_defineKeys_def Metadata_getOwnKeys_def
        empty_metadata_def)
  have b0: "rules (builderHeap two_builders_world ! 0) = 2"
    and b1: "rules (builderHeap two_builders_world ! 1) = 1"
    and len: "length (builderHeap two_builders_world) = 2"
    and arr: "arrayHeap two_builders_world = [[], [], []]"
    by (simp_all add: two_builders_world_eq)
  note t0 = on_is_noop_or_adopts_and_registers[of 7 None two_builders_world 0 2]
  note t1 = on_is_noop_or_adopts_and_registers[of 7 None two_builders_world 1 2]
  note t2 = on_is_noop_or_adopts_and_registers[of 8 None two_builders_world 1 2]
  have a: "ValidationRules_on two_builders_world 0 7 None = (0, two_builders_world)"
    using t0 g7 b0 by simp
  have b: "rules (builderHeap (snd (ValidationRules_on two_builders_world 1 7 None)) ! 1) = 2
     \<and> registrar_get 7 None (meta (snd (ValidationRules_on two_builders_world 1 7 None))) = Some 2"
    using t1 g7 b1 len by simp
  have c: "rules (builderHeap (snd (ValidationRules_on two_builders_world 1 8 None)) ! 1) = 3
     \<and> arrayHeap (snd (ValidationRules_on two_builders_world 1 8 None)) = [[], [], [], []]
     \<and> registrar_get 8 None (meta (snd (ValidationRules_on two_builders_world 1 8 None))) = Some 3"
    using t2 g8 len arr by simp
  from a b c show ?thesis by blast
qed




text \<open>
  Claim C7, as amended. When the names that \<open>parsePropertyName\<close> resolves for \<open>p1\<close> and
  \<open>p2\<close> are equal (resolved names are strings, between which loose equality is
  identity), \<open>ensure(p1)\<close> followed by \<open>ensure(p2)\<close> on the same builder returns the same
  property rule, and the second call changes nothing. \<open>ensureObject\<close> returns a reference
  that did not exist before and appends it to the builder's rules. \<open>ensure\<close> of a number
  throws.
\<close>

theorem ensure_reuses_by_name_ensureObject_is_fresh:
  "(rules (builderHeap w ! this) < length (arrayHeap w)
      \<and> list_all (\<lambda>r. r < length (propertyRuleHeap w)) (arrayHeap w ! rules (builderHeap w ! this))
      \<and> parsePropertyName parse p1 = Inr (n1, e1)
      \<and> parsePropertyName parse p2 = Inr (n2, e2)
      \<and> looseEq (NameString n1) (NameString n2) \<longrightarrow>
    (\<exists>r. fst (ValidationRules_ensure parse w this p1) = Inr r
         \<and> ValidationRules_ensure parse (snd (ValidationRules_ensure parse w this p1)) this p2
             = (Inr r, snd (ValidationRules_ensure parse w this p1))))
   \<and> fst (ValidationRules_ensureObject w this) = length (propertyRuleHeap w)
   \<and> length (propertyRuleHeap (snd (ValidationRules_ensureObject w this)))
       = Suc (length (propertyRuleHeap w))
   \<and> (rules (builderHeap w ! this) < length (arrayHeap w) \<longrightarrow>
        arrayHeap (snd (ValidationRules_ensureObject w this)) ! rules (builderHeap w ! this)
          = arrayHeap w ! rules (builderHeap w ! this) @ [length (propertyRuleHeap w)])
   \<and> (list_all (\<lambda>r. r < length (propertyRuleHeap w)) (arrayHeap w ! rules (builderHeap w ! this))
        \<longrightarrow> fst (ValidationRules_ensureObject w this)
              \<notin> set (arrayHeap w ! rules (builderHeap w ! this)))
   \<and> fst (ValidationRules_ensure parse w this (PNumber n)) = Inl (unable_to_parse (int_toString n))"
proof (intro conjI impI)
  let ?arr = "rules (builderHeap w ! this)"
  let ?rs = "arrayHeap w ! ?arr"
  assume h: "?arr < length (arrayHeap w)
      \<and> list_all (\<lambda>r. r < length (propertyRuleHeap w)) ?rs
      \<and> parsePropertyName parse p1 = Inr (n1, e1)
      \<and> parsePropertyName parse p2 = Inr (n2, e2)
      \<and> looseEq (NameString n1) (NameString n2)"
  then have n: "n2 = n1" by simp
  let ?P = "\<lambda>r. looseEq (name (property (propertyRuleHeap w ! r))) (NameString n1)"
  show "\<exists>r. fst (ValidationRules_ensure parse w this p1) = Inr r
         \<and> ValidationRules_ensure parse (snd (ValidationRules_ensure parse w this p1)) this p2
             = (Inr r, snd (ValidationRules_ensure parse w this p1))"
  proof (cases "List.find ?P ?rs")
    case (Some r)
    with h n have "ValidationRules_ensure parse w this p1 = (Inr r, w)"
      and "ValidationRules_ensure parse w this p2 = (Inr r, w)"
      by (simp_all add: ValidationRules_ensure_def Let_def)
    then show ?thesis by simp
  next
    case None
    let ?new = "\<lparr>validationRules = this,
                  property = \<lparr>expression = Some e1, name = NameString n1,
                              displayName = DisplayUndefined\<rparr>,
                  dollar_rules = [[]], latestRule = None\<rparr>"
    let ?r = "length (propertyRuleHeap w)"
    let ?w1 = "w\<lparr>propertyRuleHeap := propertyRuleHeap w @ [?new],
                 arrayHeap := (arrayHeap w)[?arr := ?rs @ [?r]]\<rparr>"
    from None h have first: "ValidationRules_ensure parse w this p1 = (Inr ?r, ?w1)"
      by (simp add: ValidationRules_ensure_def Let_def)
    let ?Q = "\<lambda>r. looseEq (name (property (propertyRuleHeap ?w1 ! r))) (NameString n1)"
    have same: "\<And>x. x \<in> set ?rs \<Longrightarrow> ?Q x = ?P x"
      using h by (auto simp: list_all_iff nth_append)
    have "List.find ?Q ?rs = None"
      using find_cong_on[of ?rs ?Q ?P, OF same] None by simp
    moreover have "?Q ?r" by simp
    ultimately have f: "List.find ?Q (?rs @ [?r]) = Some ?r"
      by (rule find_append_new)
    have arr1: "arrayHeap ?w1 ! rules (builderHeap ?w1 ! this) = ?rs @ [?r]"
      using h by simp
    have second: "ValidationRules_ensure parse ?w1 this p2 = (Inr ?r, ?w1)"
      using h n f arr1 by (simp add: ValidationRules_ensure_def Let_def)
    from first second show ?thesis by simp
  qed
next
  show "fst (ValidationRules_ensureObject w this) = length (propertyRuleHeap w)"
    by (simp add: ValidationRules_ensureObject_def Let_def)
next
  show "length (propertyRuleHeap (snd (ValidationRules_ensureObject w this)))
       = Suc (length (propertyRuleHeap w))"
    by (simp add: ValidationRules_ensureObject_def Let_def)
next
  assume "rules (builderHeap w ! this) < length (arrayHeap w)"
  then show "arrayHeap (snd (ValidationRules_ensureObject w this)) ! rules (builderHeap w ! this)
          = arrayHeap w ! rules (builderHeap w ! this) @ [length (propertyRuleHeap w)]"
    by (simp add: ValidationRules_ensureObject_def Let_def)
next
  assume "list_all (\<lambda>r. r < length (propertyRuleHeap w)) (arrayHeap w ! rules (builderHeap w ! this))"
  then show "fst (ValidationRules_ensureObject w this)
              \<notin> set (arrayHeap w ! rules (builderHeap w ! this))"
    by (auto simp: ValidationRules_ensureObject_def Let_def list_all_iff)
next
  show "fst (ValidationRules_ensure parse w this (PNumber n)) = Inl (unable_to_parse (int_toString n))"
    by (simp add: ValidationRules_ensure_def parsePropertyName_def)
qed

theorem ensure_reuses_by_name_ensureObject_is_fresh_witness:
  "fst (ValidationRules_ensure template_parser reuse_world 0 (PString ''a'')) = Inr 0
   \<and> ValidationRules_ensure template_parser
        (snd (ValidationRules_ensure template_parser reuse_world 0 (PString ''a''))) 0
        (PFunction ''x => x.a'')
       = (Inr 0, snd (ValidationRules_ensure template_parser reuse_world 0 (PString ''a'')))
   \<and> fst (ValidationRules_ensureObject reuse_world 0) = 2
   \<and> arrayHeap (snd (ValidationRules_ensureObject reuse_world 0)) ! 0 = [0, 1, 2]"
proof -
  have pf: "parsePropertyName template_parser (PFunction ''x => x.a'')
              = Inr (''a'', AccessScopeExpression ''a'' 0)"
  proof -
    have "classic_exec ''x => x.a'' = None" unfolding classic_exec_def by code_simp
    moreover have "arrow_exec ''x => x.a'' = Some ''.a''" unfolding arrow_exec_def by code_simp
    ultimately show ?thesis
      by (simp add: parsePropertyName_def parse_property_def template_parser_def)
  qed
  have h: "rules (builderHeap reuse_world ! 0) < length (arrayHeap reuse_world)
      \<and> list_all (\<lambda>r. r < length (propertyRuleHeap reuse_world))
           (arrayHeap reuse_world ! rules (builderHeap reuse_world ! 0))
      \<and> parsePropertyName template_parser (PString ''a'') = Inr (''a'', AccessScopeExpression ''a'' 0)
      \<and> parsePropertyName template_parser (PFunction ''x => x.a'')
           = Inr (''a'', AccessScopeExpression ''a'' 0)
      \<and> looseEq (NameString ''a'') (NameString ''a'')"
    by (simp add: reuse_world_eq parse_a pf)
  have first: "fst (ValidationRules_ensure template_parser reuse_world 0 (PString ''a'')) = Inr 0"
    by (simp add: reuse_world_eq ValidationRules_ensure_def parse_a Let_def)
  note t = ensure_reuses_by_name_ensureObject_is_fresh[where w = reuse_world and this = 0
        and parse = template_parser and ?p1.0 = "PString ''a''" and ?p2.0 = "PFunction ''x => x.a''"
        and ?n1.0 = "''a''" and ?n2.0 = "''a''" and ?e1.0 = "AccessScopeExpression ''a'' 0"
        and ?e2.0 = "AccessScopeExpression ''a'' 0"]
  from t h first
  have a: "ValidationRules_ensure template_parser
        (snd (ValidationRules_ensure template_parser reuse_world 0 (PString ''a''))) 0
        (PFunction ''x => x.a'')
       = (Inr 0, snd (ValidationRules_ensure template_parser reuse_world 0 (PString ''a'')))"
    by auto
  have len: "length (propertyRuleHeap reuse_world) = 2"
    and arr: "arrayHeap reuse_world ! rules (builderHeap reuse_world ! 0) = [0, 1]"
    and b0: "rules (builderHeap reuse_world ! 0) = 0"
    by (simp_all add: reuse_world_eq)
  from t h len arr b0
  have b: "fst (ValidationRules_ensureObject reuse_world 0) = 2
     \<and> arrayHeap (snd (ValidationRules_ensureObject reuse_world 0)) ! 0 = [0, 1, 2]"
    by auto
  from first a b show ?thesis by blast
qed

text \<open>
  Claim C7 as stated fails: the number 0 and the string \<open>0\<close> are loosely equal, and
  \<open>ensure(0)\<close> returns no property rule at all, while \<open>ensure('0')\<close> returns one.
\<close>

theorem ensure_number_equal_to_string_counterexample:
  "looseEq (NameNumber 0) (NameString ''0'')
   \<and> fst (ValidationRules_ensure template_parser (new_builder_world :: (unit, unit) world) 0 (PNumber 0))
       = Inl (unable_to_parse ''0'')
   \<and> fst (ValidationRules_ensure template_parser (new_builder_world :: (unit, unit) world) 0 (PString ''0''))
       = Inr 0"
  by (simp add: StringToNumber_def digit_value_def ValidationRules_ensure_def parsePropertyName_def
      parse_property_def template_parser_def new_builder_world_def int_toString_def digit_char_def
      Let_def)

section \<open>parsePropertyName\<close>

lemma arrow_exec_index: "arrow_exec ''x => x[0]'' = Some ''[0]''"
  unfolding arrow_exec_def by code_simp

lemma classic_exec_index: "classic_exec ''x => x[0]'' = None"
  unfolding classic_exec_def by code_simp

lemma arrow_exec_members: "arrow_exec ''x => x.a.b'' = Some ''.a.b''"
  unfolding arrow_exec_def by code_simp

lemma classic_exec_members: "classic_exec ''x => x.a.b'' = None"
  unfolding classic_exec_def by code_simp

text \<open>
  Claim C9, evaluated on the code. The source text \<open>x => x[0]\<close> matches the arrow
  pattern with group 1 equal to \<open>[0]\<close>; \<open>substring(1)\<close> removes the opening bracket, and
  the text compiled as the property name is \<open>0]\<close>. For \<open>x => x.a.b\<close> it is \<open>a.b\<close>.
\<close>

theorem parsePropertyName_index_accessor_loses_bracket:
  "parsePropertyName parse (PFunction ''x => x[0]'') = parse_property parse ''0]''
   \<and> parsePropertyName parse (PFunction ''x => x.a.b'') = parse_property parse ''a.b''"
  by (simp add: parsePropertyName_def arrow_exec_index classic_exec_index arrow_exec_members classic_exec_members)

end
